theory Spec2Isabelle
  imports Complex_Main "HOL-Library.AList"
begin

section \<open>Data of the library\<close>

text \<open>
  The library is a layer over the Firestore client SDK. Values that travel through it
  are JavaScript values; a document is an object, modelled as an association list whose
  property assignment is \<open>AList.update\<close> (an existing key keeps its place, a new key is
  appended) and whose property read gives \<open>undefined\<close> for a missing key.
\<close>

datatype error = FirebaseError string | TypeError string

datatype Timestamp = Timestamp (seconds: int) (nanoseconds: nat)

datatype JsDate = JsDate (millis: int)

datatype jsvalue =
    VUndefined
  | VNull
  | VBool bool
  | VNum int
  | VStr string
  | VTimestamp Timestamp
  | VDate JsDate
  | VServerTimestamp
  | VIncrement int
  | VArray "jsvalue list"
  | VObject "(string \<times> jsvalue) list"

type_synonym DocumentData = "(string \<times> jsvalue) list"

definition get_prop :: "DocumentData \<Rightarrow> string \<Rightarrow> jsvalue" where
  "get_prop data key = (case map_of data key of None \<Rightarrow> VUndefined | Some v \<Rightarrow> v)"

datatype Firestore = Firestore string

datatype Auth = Auth string

record User =
  uid :: string
  email :: "string option"

datatype CollectionReference = CollectionReference (col_path: string)

datatype DocumentReference = DocumentReference (doc_id: string) (doc_path: string)

text \<open>\<open>type ColRefOrPath = CollectionReference | string | string[]\<close> and
  \<open>type DocRefOrPath = DocumentReference | string | string[]\<close>.\<close>

datatype ColRefOrPath =
    ColRef CollectionReference
  | ColPath string
  | ColSegments "string list"

datatype DocRefOrPath =
    DocRef DocumentReference
  | DocPath string
  | DocSegments "string list"

datatype SetOptions = SetOptions (merge_opt: bool)

text \<open>A write queued in a \<open>WriteBatch\<close> of the SDK, and the batch as the queue of its writes.\<close>

datatype mutation =
    WSet DocumentReference DocumentData "SetOptions option"
  | WUpdate DocumentReference DocumentData
  | WDelete DocumentReference

datatype WriteBatch = WriteBatch (wb_db: Firestore) (wb_writes: "mutation list")

datatype SnapshotOptions = SnapshotOptions string

datatype QueryDocumentSnapshot =
  QueryDocumentSnapshot (snapshot_data: "SnapshotOptions option \<Rightarrow> DocumentData")

record 't FirestoreDataConverter =
  fromFirestore :: "QueryDocumentSnapshot \<Rightarrow> SnapshotOptions option \<Rightarrow> 't"
  toFirestore :: "'t \<Rightarrow> DocumentData"

section \<open>The client SDK\<close>

text \<open>
  The functions imported from \<open>firebase/app\<close>, \<open>firebase/auth\<close> and \<open>firebase/firestore\<close>
  are not part of the library. They are parameters of the model: a record of functions
  over a state \<open>'b\<close> of the SDK and the service behind it (signed-in user, stored
  documents, source of generated ids). A function that can throw or reject returns
  \<open>Inl\<close> of the error. The default app is taken to be initialised, so \<open>getFirestore()\<close>
  and \<open>getAuth()\<close> return their handle.
\<close>

record 'b sdk =
  getFirestore_fn :: "'b \<Rightarrow> Firestore"
  getAuth_fn :: "'b \<Rightarrow> Auth"
  currentUser_fn :: "'b \<Rightarrow> Auth \<Rightarrow> User option"
  collection_fn :: "Firestore \<Rightarrow> string \<Rightarrow> error + CollectionReference"
  doc_fn :: "Firestore \<Rightarrow> string \<Rightarrow> error + DocumentReference"
  doc_auto_fn :: "CollectionReference \<Rightarrow> 'b \<Rightarrow> DocumentReference \<times> 'b"
  batch_check_fn :: "mutation \<Rightarrow> error option"
  toDate_fn :: "Timestamp \<Rightarrow> JsDate"
  signIn_fn :: "Auth \<Rightarrow> string \<Rightarrow> string \<Rightarrow> 'b \<Rightarrow> (error + unit) \<times> 'b"
  signOut_fn :: "Auth \<Rightarrow> 'b \<Rightarrow> (error + unit) \<times> 'b"
  getDoc_fn :: "DocumentReference \<Rightarrow> 'b \<Rightarrow> (error + QueryDocumentSnapshot option) \<times> 'b"
  setDoc_fn :: "DocumentReference \<Rightarrow> DocumentData \<Rightarrow> SetOptions option \<Rightarrow> 'b \<Rightarrow> (error + unit) \<times> 'b"
  updateDoc_fn :: "DocumentReference \<Rightarrow> DocumentData \<Rightarrow> 'b \<Rightarrow> (error + unit) \<times> 'b"
  deleteDoc_fn :: "DocumentReference \<Rightarrow> 'b \<Rightarrow> (error + unit) \<times> 'b"
  batch_commit_fn :: "WriteBatch \<Rightarrow> 'b \<Rightarrow> (error + unit) \<times> 'b"

text \<open>
  The asynchronous calls of the SDK (the ones the library awaits) are recorded, in the
  order they are made, next to the state they act on.
\<close>

datatype request =
    SignInWithEmailAndPassword Auth string string
  | AuthSignOut Auth
  | GetDoc DocumentReference
  | SetDoc DocumentReference DocumentData "SetOptions option"
  | UpdateDoc DocumentReference DocumentData
  | DeleteDoc DocumentReference
  | BatchCommit WriteBatch

record 'b world =
  backend :: 'b
  calls :: "request list"

definition await :: "request \<Rightarrow> ('b \<Rightarrow> 'r \<times> 'b) \<Rightarrow> 'b world \<Rightarrow> 'r \<times> 'b world" where
  "await rq f w =
     (case f (backend w) of (r, b') \<Rightarrow> (r, w\<lparr>backend := b', calls := calls w @ [rq]\<rparr>))"

definition getFirestore :: "'b sdk \<Rightarrow> 'b world \<Rightarrow> Firestore" where
  "getFirestore sdk w = getFirestore_fn sdk (backend w)"

definition getAuth :: "'b sdk \<Rightarrow> 'b world \<Rightarrow> Auth" where
  "getAuth sdk w = getAuth_fn sdk (backend w)"

definition collection :: "'b sdk \<Rightarrow> Firestore \<Rightarrow> string \<Rightarrow> error + CollectionReference" where
  "collection sdk db path = collection_fn sdk db path"

definition doc :: "'b sdk \<Rightarrow> Firestore \<Rightarrow> string \<Rightarrow> error + DocumentReference" where
  "doc sdk db path = doc_fn sdk db path"

text \<open>\<open>doc(colRef)\<close>: a reference to a new document with a generated id.\<close>

definition doc_auto :: "'b sdk \<Rightarrow> CollectionReference \<Rightarrow> 'b world \<Rightarrow> DocumentReference \<times> 'b world" where
  "doc_auto sdk c w =
     (case doc_auto_fn sdk c (backend w) of (r, b') \<Rightarrow> (r, w\<lparr>backend := b'\<rparr>))"

text \<open>The awaited functions of the SDK, each recorded as the request it sends.\<close>

definition signInWithEmailAndPassword ::
  "'b sdk \<Rightarrow> Auth \<Rightarrow> string \<Rightarrow> string \<Rightarrow> 'b world \<Rightarrow> (error + unit) \<times> 'b world" where
  "signInWithEmailAndPassword sdk a e p w =
     await (SignInWithEmailAndPassword a e p) (signIn_fn sdk a e p) w"

definition auth_signOut :: "'b sdk \<Rightarrow> Auth \<Rightarrow> 'b world \<Rightarrow> (error + unit) \<times> 'b world" where
  "auth_signOut sdk a w = await (AuthSignOut a) (signOut_fn sdk a) w"

definition getDoc ::
  "'b sdk \<Rightarrow> DocumentReference \<Rightarrow> 'b world \<Rightarrow> (error + QueryDocumentSnapshot option) \<times> 'b world" where
  "getDoc sdk r w = await (GetDoc r) (getDoc_fn sdk r) w"

definition setDoc ::
  "'b sdk \<Rightarrow> DocumentReference \<Rightarrow> DocumentData \<Rightarrow> SetOptions option \<Rightarrow> 'b world
     \<Rightarrow> (error + unit) \<times> 'b world" where
  "setDoc sdk r d opts w = await (SetDoc r d opts) (setDoc_fn sdk r d opts) w"

definition updateDoc ::
  "'b sdk \<Rightarrow> DocumentReference \<Rightarrow> DocumentData \<Rightarrow> 'b world \<Rightarrow> (error + unit) \<times> 'b world" where
  "updateDoc sdk r d w = await (UpdateDoc r d) (updateDoc_fn sdk r d) w"

definition deleteDoc :: "'b sdk \<Rightarrow> DocumentReference \<Rightarrow> 'b world \<Rightarrow> (error + unit) \<times> 'b world" where
  "deleteDoc sdk r w = await (DeleteDoc r) (deleteDoc_fn sdk r) w"

definition batch_commit :: "'b sdk \<Rightarrow> WriteBatch \<Rightarrow> 'b world \<Rightarrow> (error + unit) \<times> 'b world" where
  "batch_commit sdk b w = await (BatchCommit b) (batch_commit_fn sdk b) w"

definition serverTimestamp :: jsvalue where
  "serverTimestamp = VServerTimestamp"

definition increment :: "int \<Rightarrow> jsvalue" where
  "increment n = VIncrement n"

definition writeBatch :: "Firestore \<Rightarrow> WriteBatch" where
  "writeBatch db = WriteBatch db []"

text \<open>\<open>batch.set\<close>, \<open>batch.update\<close> and \<open>batch.delete\<close> of the SDK: the write is validated
  and, when accepted, queued behind the writes the batch already holds.\<close>

definition batch_enqueue :: "'b sdk \<Rightarrow> mutation \<Rightarrow> WriteBatch \<Rightarrow> error + WriteBatch" where
  "batch_enqueue sdk wr b =
     (case batch_check_fn sdk wr of
        Some e \<Rightarrow> Inl e
      | None \<Rightarrow> Inr (WriteBatch (wb_db b) (wb_writes b @ [wr])))"

text \<open>
  The static initialisers of \<open>Fire\<close> and the query builder \<open>FireQuery\<close> pass their
  arguments to the SDK and take no part in the properties proved below; they are left
  out.
\<close>

section \<open>Reference normalization\<close>

text \<open>\<open>Array.prototype.join\<close> on an array of strings.\<close>

fun join :: "string \<Rightarrow> string list \<Rightarrow> string" where
  "join sep [] = []"
| "join sep [s] = s"
| "join sep (s # t # ts) = s @ sep @ join sep (t # ts)"

fun getColRef :: "'b sdk \<Rightarrow> ColRefOrPath \<Rightarrow> 'b world \<Rightarrow> error + CollectionReference" where
  "getColRef sdk (ColPath s) w = collection sdk (getFirestore sdk w) s"
| "getColRef sdk (ColSegments p) w = collection sdk (getFirestore sdk w) (join ''/'' p)"
| "getColRef sdk (ColRef c) w = Inr c"

text \<open>\<open>getDocRef\<close> takes a \<open>DocRefOrPath | CollectionReference\<close>; given a collection it
  makes a reference with a generated id, which draws on the state of the SDK.\<close>

fun getDocRef ::
  "'b sdk \<Rightarrow> DocRefOrPath + CollectionReference \<Rightarrow> 'b world \<Rightarrow> (error + DocumentReference) \<times> 'b world"
where
  "getDocRef sdk (Inl (DocPath s)) w = (doc sdk (getFirestore sdk w) s, w)"
| "getDocRef sdk (Inl (DocSegments p)) w = (doc sdk (getFirestore sdk w) (join ''/'' p), w)"
| "getDocRef sdk (Inr c) w = (case doc_auto sdk c w of (r, w') \<Rightarrow> (Inr r, w'))"
| "getDocRef sdk (Inl (DocRef d)) w = (Inr d, w)"

section \<open>FireBatch\<close>

text \<open>
  The counters are JavaScript numbers that only count up from zero, here \<open>nat\<close>. The limit
  \<open>countPerBatch\<close> is whatever number the caller passes: a finite one (a rational), \<open>NaN\<close>
  or an infinity. \<open>counter_ge\<close> is \<open>>=\<close> between a counter and such a number; every
  comparison with \<open>NaN\<close> is false.
\<close>

datatype number = Finite rat | NaN | PosInfinity | NegInfinity

fun counter_ge :: "nat \<Rightarrow> number \<Rightarrow> bool" where
  "counter_ge c (Finite q) = (q \<le> of_nat c)"
| "counter_ge c NaN = False"
| "counter_ge c PosInfinity = False"
| "counter_ge c NegInfinity = True"

definition DEF_COUNT_PER_BATCH :: number where
  "DEF_COUNT_PER_BATCH = Finite 495"

record FireBatch =
  totalCount :: nat
  curCount :: nat
  batches :: "WriteBatch list"
  countPerBatch :: number

definition batchCount :: "FireBatch \<Rightarrow> nat" where
  "batchCount fb = length (batches fb)"

definition FireBatch_db :: "'b sdk \<Rightarrow> 'b world \<Rightarrow> Firestore" where
  "FireBatch_db sdk w = getFirestore sdk w"

text \<open>\<open>this.batches[this.batches.length - 1]\<close> is \<open>undefined\<close> on an empty array.\<close>

definition curBatch :: "FireBatch \<Rightarrow> WriteBatch option" where
  "curBatch fb = (if batches fb = [] then None else Some (last (batches fb)))"

text \<open>The constructor; \<open>None\<close> is the call without an argument.\<close>

definition new_FireBatch :: "'b sdk \<Rightarrow> number option \<Rightarrow> 'b world \<Rightarrow> FireBatch" where
  "new_FireBatch sdk n w =
     \<lparr>totalCount = 0, curCount = 0,
      batches = [] @ [writeBatch (FireBatch_db sdk w)],
      countPerBatch = (case n of None \<Rightarrow> DEF_COUNT_PER_BATCH | Some c \<Rightarrow> c)\<rparr>"

definition updateCount :: "'b sdk \<Rightarrow> FireBatch \<Rightarrow> 'b world \<Rightarrow> FireBatch" where
  "updateCount sdk fb w =
     (let fb1 = fb\<lparr>curCount := curCount fb + 1\<rparr>;
          fb2 = fb1\<lparr>totalCount := totalCount fb1 + 1\<rparr>
      in if counter_ge (curCount fb2) (countPerBatch fb2)
         then fb2\<lparr>batches := batches fb2 @ [writeBatch (FireBatch_db sdk w)], curCount := 0\<rparr>
         else fb2)"

text \<open>
  A write method calls \<open>this.curBatch.set\<close> (or \<open>update\<close>, \<open>delete\<close>), which mutates the last
  batch object of the list in place, and then \<open>updateCount\<close>. A call on \<open>undefined\<close> is a
  \<open>TypeError\<close>; an error leaves the accumulator as it was.
\<close>

definition curBatch_write ::
  "'b sdk \<Rightarrow> mutation \<Rightarrow> FireBatch \<Rightarrow> 'b world \<Rightarrow> error + FireBatch" where
  "curBatch_write sdk wr fb w =
     (case curBatch fb of
        None \<Rightarrow> Inl (TypeError ''Cannot read properties of undefined'')
      | Some b \<Rightarrow>
          (case batch_enqueue sdk wr b of
             Inl e \<Rightarrow> Inl e
           | Inr b' \<Rightarrow> Inr (updateCount sdk (fb\<lparr>batches := butlast (batches fb) @ [b']\<rparr>) w)))"

definition FireBatch_add ::
  "'b sdk \<Rightarrow> ColRefOrPath \<Rightarrow> DocumentData \<Rightarrow> FireBatch \<Rightarrow> 'b world
     \<Rightarrow> (error + string) \<times> FireBatch \<times> 'b world" where
  "FireBatch_add sdk colRefOrPath data fb w =
     (case getColRef sdk colRefOrPath w of
        Inl e \<Rightarrow> (Inl e, fb, w)
      | Inr c \<Rightarrow>
          (case doc_auto sdk c w of
             (docRef, w') \<Rightarrow>
               (let docId = doc_id docRef in
                case curBatch_write sdk
                       (WSet docRef
                          (AList.update ''createdAt'' serverTimestamp
                             (AList.update ''id'' (VStr docId) data)) None) fb w' of
                  Inl e \<Rightarrow> (Inl e, fb, w')
                | Inr fb' \<Rightarrow> (Inr docId, fb', w'))))"

definition FireBatch_set ::
  "'b sdk \<Rightarrow> DocRefOrPath \<Rightarrow> DocumentData \<Rightarrow> FireBatch \<Rightarrow> 'b world
     \<Rightarrow> (error + unit) \<times> FireBatch \<times> 'b world" where
  "FireBatch_set sdk docRefOrPath data fb w =
     (case getDocRef sdk (Inl docRefOrPath) w of
        (Inl e, w') \<Rightarrow> (Inl e, fb, w')
      | (Inr docRef, w') \<Rightarrow>
          (case curBatch_write sdk
                  (WSet docRef
                     (AList.update ''createdAt'' serverTimestamp
                        (AList.update ''id'' (VStr (doc_id docRef)) data)) None) fb w' of
             Inl e \<Rightarrow> (Inl e, fb, w')
           | Inr fb' \<Rightarrow> (Inr (), fb', w')))"

definition FireBatch_merge ::
  "'b sdk \<Rightarrow> DocRefOrPath \<Rightarrow> DocumentData \<Rightarrow> FireBatch \<Rightarrow> 'b world
     \<Rightarrow> (error + unit) \<times> FireBatch \<times> 'b world" where
  "FireBatch_merge sdk docRefOrPath data fb w =
     (case getDocRef sdk (Inl docRefOrPath) w of
        (Inl e, w') \<Rightarrow> (Inl e, fb, w')
      | (Inr docRef, w') \<Rightarrow>
          (case curBatch_write sdk
                  (WSet docRef
                     (AList.update ''updatedAt'' serverTimestamp
                        (AList.update ''id'' (VStr (doc_id docRef)) data))
                     (Some (SetOptions True))) fb w' of
             Inl e \<Rightarrow> (Inl e, fb, w')
           | Inr fb' \<Rightarrow> (Inr (), fb', w')))"

definition FireBatch_update ::
  "'b sdk \<Rightarrow> DocRefOrPath \<Rightarrow> DocumentData \<Rightarrow> FireBatch \<Rightarrow> 'b world
     \<Rightarrow> (error + unit) \<times> FireBatch \<times> 'b world" where
  "FireBatch_update sdk docRefOrPath data fb w =
     (case getDocRef sdk (Inl docRefOrPath) w of
        (Inl e, w') \<Rightarrow> (Inl e, fb, w')
      | (Inr docRef, w') \<Rightarrow>
          (case curBatch_write sdk
                  (WUpdate docRef
                     (AList.update ''updatedAt'' serverTimestamp
                        (AList.update ''id'' (VStr (doc_id docRef)) data))) fb w' of
             Inl e \<Rightarrow> (Inl e, fb, w')
           | Inr fb' \<Rightarrow> (Inr (), fb', w')))"

definition FireBatch_delete ::
  "'b sdk \<Rightarrow> DocRefOrPath \<Rightarrow> FireBatch \<Rightarrow> 'b world
     \<Rightarrow> (error + unit) \<times> FireBatch \<times> 'b world" where
  "FireBatch_delete sdk docRefOrPath fb w =
     (case getDocRef sdk (Inl docRefOrPath) w of
        (Inl e, w') \<Rightarrow> (Inl e, fb, w')
      | (Inr docRef, w') \<Rightarrow>
          (case curBatch_write sdk (WDelete docRef) fb w' of
             Inl e \<Rightarrow> (Inl e, fb, w')
           | Inr fb' \<Rightarrow> (Inr (), fb', w')))"

text \<open>
  \<open>commit\<close>: the loop awaits \<open>batch.commit()\<close> for each batch in turn; a rejection leaves
  the loop and the method at once.
\<close>

fun commit_loop :: "'b sdk \<Rightarrow> WriteBatch list \<Rightarrow> 'b world \<Rightarrow> error option \<times> 'b world" where
  "commit_loop sdk [] w = (None, w)"
| "commit_loop sdk (batch # rest) w =
     (case batch_commit sdk batch w of
        (Inl e, w') \<Rightarrow> (Some e, w')
      | (Inr u, w') \<Rightarrow> commit_loop sdk rest w')"

definition commit ::
  "'b sdk \<Rightarrow> FireBatch \<Rightarrow> 'b world \<Rightarrow> (error + nat) \<times> FireBatch \<times> 'b world" where
  "commit sdk fb w =
     (case commit_loop sdk (batches fb) w of
        (Some e, w') \<Rightarrow> (Inl e, fb, w')
      | (None, w') \<Rightarrow>
          (let total = totalCount fb;
               fb1 = fb\<lparr>totalCount := 0\<rparr>;
               fb2 = fb1\<lparr>curCount := 0\<rparr>;
               fb3 = fb2\<lparr>batches := [writeBatch (FireBatch_db sdk w')]\<rparr>
           in (Inr total, fb3, w')))"

text \<open>
  A client of the accumulator makes calls one after another, writes and commits; a call
  that throws is caught and the client goes on. \<open>run_calls\<close> returns how many write calls
  have returned since the last commit that succeeded (since the start when there is none).
\<close>

datatype batch_call =
    CallAdd ColRefOrPath DocumentData
  | CallSet DocRefOrPath DocumentData
  | CallMerge DocRefOrPath DocumentData
  | CallUpdate DocRefOrPath DocumentData
  | CallDelete DocRefOrPath
  | CallCommit

datatype outcome = Wrote | Committed | Threw

fun invoke ::
  "'b sdk \<Rightarrow> batch_call \<Rightarrow> FireBatch \<Rightarrow> 'b world \<Rightarrow> outcome \<times> FireBatch \<times> 'b world" where
  "invoke sdk (CallAdd c d) fb w =
     (case FireBatch_add sdk c d fb w of (r, fb', w') \<Rightarrow> (if isl r then Threw else Wrote, fb', w'))"
| "invoke sdk (CallSet p d) fb w =
     (case FireBatch_set sdk p d fb w of (r, fb', w') \<Rightarrow> (if isl r then Threw else Wrote, fb', w'))"
| "invoke sdk (CallMerge p d) fb w =
     (case FireBatch_merge sdk p d fb w of (r, fb', w') \<Rightarrow> (if isl r then Threw else Wrote, fb', w'))"
| "invoke sdk (CallUpdate p d) fb w =
     (case FireBatch_update sdk p d fb w of (r, fb', w') \<Rightarrow> (if isl r then Threw else Wrote, fb', w'))"
| "invoke sdk (CallDelete p) fb w =
     (case FireBatch_delete sdk p fb w of (r, fb', w') \<Rightarrow> (if isl r then Threw else Wrote, fb', w'))"
| "invoke sdk CallCommit fb w =
     (case commit sdk fb w of (r, fb', w') \<Rightarrow> (if isl r then Threw else Committed, fb', w'))"

fun tally :: "outcome \<Rightarrow> nat \<Rightarrow> nat" where
  "tally Wrote n = n + 1"
| "tally Committed n = 0"
| "tally Threw n = n"

fun run_from ::
  "'b sdk \<Rightarrow> batch_call list \<Rightarrow> nat \<Rightarrow> FireBatch \<Rightarrow> 'b world \<Rightarrow> nat \<times> FireBatch \<times> 'b world" where
  "run_from sdk [] n fb w = (n, fb, w)"
| "run_from sdk (c # cs) n fb w =
     (case invoke sdk c fb w of (out, fb', w') \<Rightarrow> run_from sdk cs (tally out n) fb' w')"

definition run_calls ::
  "'b sdk \<Rightarrow> batch_call list \<Rightarrow> FireBatch \<Rightarrow> 'b world \<Rightarrow> nat \<times> FireBatch \<times> 'b world" where
  "run_calls sdk cs fb w = run_from sdk cs 0 fb w"

text \<open>All writes the accumulator holds, oldest first.\<close>

definition queued :: "FireBatch \<Rightarrow> mutation list" where
  "queued fb = concat (map wb_writes (batches fb))"

text \<open>
  The shape of the batch list under an integer limit \<open>N\<close> of at least one: every batch but
  the newest holds \<open>N\<close> writes, the newest holds \<open>curCount\<close> writes, fewer than \<open>N\<close>, and
  \<open>totalCount\<close> is their sum.
\<close>

definition filled :: "int \<Rightarrow> FireBatch \<Rightarrow> bool" where
  "filled N fb \<longleftrightarrow>
     batches fb \<noteq> [] \<and>
     list_all (\<lambda>b. int (length (wb_writes b)) = N) (butlast (batches fb)) \<and>
     length (wb_writes (last (batches fb))) = curCount fb \<and>
     int (curCount fb) < N \<and>
     int (totalCount fb) = (int (length (batches fb)) - 1) * N + int (curCount fb)"

section \<open>Fire\<close>

text \<open>
  The class declares no field: an instance is its identity only. Every method takes
  \<open>this\<close>, as in the source, and reaches \<open>auth\<close>, \<open>user\<close> and \<open>serverTs\<close> through it.
\<close>

datatype Fire = Fire (fire_object: nat)

definition Fire_auth :: "Fire \<Rightarrow> 'b sdk \<Rightarrow> 'b world \<Rightarrow> Auth" where
  "Fire_auth this sdk w = getAuth sdk w"

definition Fire_user :: "Fire \<Rightarrow> 'b sdk \<Rightarrow> 'b world \<Rightarrow> User option" where
  "Fire_user this sdk w = currentUser_fn sdk (backend w) (Fire_auth this sdk w)"

definition Fire_uid :: "Fire \<Rightarrow> 'b sdk \<Rightarrow> 'b world \<Rightarrow> string" where
  "Fire_uid this sdk w = (case Fire_user this sdk w of None \<Rightarrow> [] | Some u \<Rightarrow> uid u)"

definition Fire_signIn ::
  "Fire \<Rightarrow> 'b sdk \<Rightarrow> string \<Rightarrow> string \<Rightarrow> 'b world \<Rightarrow> (error + User option) \<times> 'b world" where
  "Fire_signIn this sdk email' password w =
     (case signInWithEmailAndPassword sdk (Fire_auth this sdk w) email' password w of
        (Inl e, w') \<Rightarrow> (Inl e, w')
      | (Inr u, w') \<Rightarrow> (Inr (Fire_user this sdk w'), w'))"

definition Fire_signOut :: "Fire \<Rightarrow> 'b sdk \<Rightarrow> 'b world \<Rightarrow> (error + unit) \<times> 'b world" where
  "Fire_signOut this sdk w = auth_signOut sdk (Fire_auth this sdk w) w"

definition Fire_db :: "Fire \<Rightarrow> 'b sdk \<Rightarrow> 'b world \<Rightarrow> Firestore" where
  "Fire_db this sdk w = getFirestore sdk w"

definition Fire_serverTs :: "Fire \<Rightarrow> jsvalue" where
  "Fire_serverTs this = serverTimestamp"

definition Fire_inc :: "Fire \<Rightarrow> int \<Rightarrow> jsvalue" where
  "Fire_inc this n = increment n"

definition Fire_colRef ::
  "Fire \<Rightarrow> 'b sdk \<Rightarrow> ColRefOrPath \<Rightarrow> 'b world \<Rightarrow> error + CollectionReference" where
  "Fire_colRef this sdk colRefOrPath w = getColRef sdk colRefOrPath w"

definition Fire_docRef ::
  "Fire \<Rightarrow> 'b sdk \<Rightarrow> DocRefOrPath + CollectionReference \<Rightarrow> 'b world
     \<Rightarrow> (error + DocumentReference) \<times> 'b world" where
  "Fire_docRef this sdk docRefOrPath w = getDocRef sdk docRefOrPath w"

text \<open>\<open>snapshot.data()\<close> of a snapshot with a converter is \<open>undefined\<close> when the document
  does not exist, and the converter's \<open>fromFirestore\<close> of it otherwise; \<open>?? null\<close> turns
  the former into \<open>null\<close>, here \<open>None\<close>.\<close>

definition Fire_getDoc ::
  "Fire \<Rightarrow> 'b sdk \<Rightarrow> DocRefOrPath \<Rightarrow> 't FirestoreDataConverter \<Rightarrow> 'b world
     \<Rightarrow> (error + 't option) \<times> 'b world" where
  "Fire_getDoc this sdk docRefOrPath converter w =
     (case getDocRef sdk (Inl docRefOrPath) w of
        (Inl e, w1) \<Rightarrow> (Inl e, w1)
      | (Inr docRef, w1) \<Rightarrow>
          (case getDoc sdk docRef w1 of
             (Inl e, w2) \<Rightarrow> (Inl e, w2)
           | (Inr snapshot, w2) \<Rightarrow>
               (Inr (case snapshot of
                       None \<Rightarrow> None
                     | Some q \<Rightarrow> Some (fromFirestore converter q None)), w2)))"

definition Fire_addDoc ::
  "Fire \<Rightarrow> 'b sdk \<Rightarrow> ColRefOrPath \<Rightarrow> DocumentData \<Rightarrow> 'b world
     \<Rightarrow> (error + DocumentReference) \<times> 'b world" where
  "Fire_addDoc this sdk colRefOrPath data w =
     (case getColRef sdk colRefOrPath w of
        Inl e \<Rightarrow> (Inl e, w)
      | Inr c \<Rightarrow>
          (case doc_auto sdk c w of
             (docRef, w1) \<Rightarrow>
               (case setDoc sdk docRef
                       (AList.update ''createdAt'' (Fire_serverTs this)
                          (AList.update ''id'' (VStr (doc_id docRef)) data)) None w1 of
                  (Inl e, w2) \<Rightarrow> (Inl e, w2)
                | (Inr u, w2) \<Rightarrow> (Inr docRef, w2))))"

definition Fire_setDoc ::
  "Fire \<Rightarrow> 'b sdk \<Rightarrow> DocRefOrPath \<Rightarrow> DocumentData \<Rightarrow> 'b world
     \<Rightarrow> (error + DocumentReference) \<times> 'b world" where
  "Fire_setDoc this sdk docRefOrPath data w =
     (case getDocRef sdk (Inl docRefOrPath) w of
        (Inl e, w1) \<Rightarrow> (Inl e, w1)
      | (Inr docRef, w1) \<Rightarrow>
          (case setDoc sdk docRef
                  (AList.update ''createdAt'' (Fire_serverTs this)
                     (AList.update ''id'' (VStr (doc_id docRef)) data)) None w1 of
             (Inl e, w2) \<Rightarrow> (Inl e, w2)
           | (Inr u, w2) \<Rightarrow> (Inr docRef, w2)))"

definition Fire_mergeDoc ::
  "Fire \<Rightarrow> 'b sdk \<Rightarrow> DocRefOrPath \<Rightarrow> DocumentData \<Rightarrow> 'b world
     \<Rightarrow> (error + DocumentReference) \<times> 'b world" where
  "Fire_mergeDoc this sdk docRefOrPath data w =
     (case getDocRef sdk (Inl docRefOrPath) w of
        (Inl e, w1) \<Rightarrow> (Inl e, w1)
      | (Inr docRef, w1) \<Rightarrow>
          (case setDoc sdk docRef
                  (AList.update ''updatedAt'' (Fire_serverTs this)
                     (AList.update ''id'' (VStr (doc_id docRef)) data))
                  (Some (SetOptions True)) w1 of
             (Inl e, w2) \<Rightarrow> (Inl e, w2)
           | (Inr u, w2) \<Rightarrow> (Inr docRef, w2)))"

definition Fire_updateDoc ::
  "Fire \<Rightarrow> 'b sdk \<Rightarrow> DocRefOrPath \<Rightarrow> DocumentData \<Rightarrow> 'b world
     \<Rightarrow> (error + DocumentReference) \<times> 'b world" where
  "Fire_updateDoc this sdk docRefOrPath data w =
     (case getDocRef sdk (Inl docRefOrPath) w of
        (Inl e, w1) \<Rightarrow> (Inl e, w1)
      | (Inr docRef, w1) \<Rightarrow>
          (case updateDoc sdk docRef
                  (AList.update ''updatedAt'' (Fire_serverTs this)
                     (AList.update ''id'' (VStr (doc_id docRef)) data)) w1 of
             (Inl e, w2) \<Rightarrow> (Inl e, w2)
           | (Inr u, w2) \<Rightarrow> (Inr docRef, w2)))"

definition Fire_deleteDoc ::
  "Fire \<Rightarrow> 'b sdk \<Rightarrow> DocRefOrPath \<Rightarrow> 'b world \<Rightarrow> (error + unit) \<times> 'b world" where
  "Fire_deleteDoc this sdk docRefOrPath w =
     (case getDocRef sdk (Inl docRefOrPath) w of
        (Inl e, w1) \<Rightarrow> (Inl e, w1)
      | (Inr docRef, w1) \<Rightarrow> deleteDoc sdk docRef w1)"

section \<open>FireUtil\<close>

text \<open>The loop of \<open>getFireData\<close> over \<open>Object.keys(data)\<close>, assigning in place.\<close>

fun convert_timestamps :: "'b sdk \<Rightarrow> string list \<Rightarrow> DocumentData \<Rightarrow> DocumentData" where
  "convert_timestamps sdk [] data = data"
| "convert_timestamps sdk (key # keys) data =
     convert_timestamps sdk keys
       (case get_prop data key of
          VTimestamp t \<Rightarrow> AList.update key (VDate (toDate_fn sdk t)) data
        | _ \<Rightarrow> data)"

text \<open>
  The destructuring \<open>{id = '', createdAt, updatedAt, ...others}\<close> takes the default for
  \<open>id\<close> when the property is \<open>undefined\<close>; the returned literal lists the three names
  and then the remaining properties.
\<close>

definition getFireData ::
  "'b sdk \<Rightarrow> QueryDocumentSnapshot \<Rightarrow> SnapshotOptions option \<Rightarrow> DocumentData" where
  "getFireData sdk snapshot options =
     (let data0 = snapshot_data snapshot options;
          data = convert_timestamps sdk (map fst data0) data0;
          id' = (case get_prop data ''id'' of VUndefined \<Rightarrow> VStr [] | v \<Rightarrow> v);
          createdAt = get_prop data ''createdAt'';
          updatedAt = get_prop data ''updatedAt'';
          others = filter (\<lambda>kv. fst kv \<notin> set [''id'', ''createdAt'', ''updatedAt'']) data
      in [(''id'', id'), (''createdAt'', createdAt), (''updatedAt'', updatedAt)] @ others)"

text \<open>
  \<open>toFirestore\<close> returns the model object itself; \<open>as_data\<close> is that object seen as
  \<open>DocumentData\<close>, which TypeScript does without a conversion.
\<close>

definition createDataConverter ::
  "'b sdk \<Rightarrow> ('t \<Rightarrow> DocumentData) \<Rightarrow> (DocumentData \<Rightarrow> 't) \<Rightarrow> 't FirestoreDataConverter" where
  "createDataConverter sdk as_data fromFirestore' =
     \<lparr>fromFirestore = (\<lambda>snapshot options. fromFirestore' (getFireData sdk snapshot options)),
      toFirestore = (\<lambda>modelObject. as_data modelObject)\<rparr>"

section \<open>Predicates of the specification\<close>

text \<open>
  What the specification says of a written payload: it carries the id of the reference
  it is written to; it has the server timestamp under \<open>createdAt\<close> and leaves \<open>updatedAt\<close>
  as the caller gave it, or the other way round. \<open>enriched\<close> is the payload with the id
  and one timestamp, and \<open>converted\<close> the value a stored value is read as.
\<close>

definition has_ref_id :: "DocumentReference \<Rightarrow> DocumentData \<Rightarrow> bool" where
  "has_ref_id r payload \<longleftrightarrow> map_of payload ''id'' = Some (VStr (doc_id r))"

definition stamps_created :: "DocumentData \<Rightarrow> DocumentData \<Rightarrow> bool" where
  "stamps_created data payload \<longleftrightarrow>
     map_of payload ''createdAt'' = Some VServerTimestamp \<and>
     map_of payload ''updatedAt'' = map_of data ''updatedAt''"

definition stamps_updated :: "DocumentData \<Rightarrow> DocumentData \<Rightarrow> bool" where
  "stamps_updated data payload \<longleftrightarrow>
     map_of payload ''updatedAt'' = Some VServerTimestamp \<and>
     map_of payload ''createdAt'' = map_of data ''createdAt''"

definition enriched :: "string \<Rightarrow> DocumentReference \<Rightarrow> DocumentData \<Rightarrow> DocumentData" where
  "enriched stamp r data =
     AList.update stamp VServerTimestamp (AList.update ''id'' (VStr (doc_id r)) data)"

fun converted :: "'b sdk \<Rightarrow> jsvalue \<Rightarrow> jsvalue" where
  "converted sdk (VTimestamp t) = VDate (toDate_fn sdk t)"
| "converted sdk v = v"

section \<open>An in-memory SDK\<close>

text \<open>
  A small instance of the SDK record, to run the definitions on concrete inputs: ids
  are generated from a counter, committed writes are kept in a journal, an empty path
  is refused, a batch that holds a delete is rejected by the service, and a write whose
  data has a property \<open>bad\<close> is refused by the batch.
\<close>

record mem =
  mem_next_id :: nat
  mem_user :: "User option"
  mem_journal :: "mutation list"

definition last_segment :: "string \<Rightarrow> string" where
  "last_segment p = rev (takeWhile (\<lambda>c. c \<noteq> CHR ''/'') (rev p))"

fun is_delete :: "mutation \<Rightarrow> bool" where
  "is_delete (WDelete r) = True"
| "is_delete (WSet r d opts) = False"
| "is_delete (WUpdate r d) = False"

fun mutation_data :: "mutation \<Rightarrow> DocumentData" where
  "mutation_data (WSet r d opts) = d"
| "mutation_data (WUpdate r d) = d"
| "mutation_data (WDelete r) = []"

fun mem_find :: "DocumentReference \<Rightarrow> mutation list \<Rightarrow> DocumentData option" where
  "mem_find r [] = None"
| "mem_find r (WSet r' d opts # ms) =
     (case mem_find r ms of Some d' \<Rightarrow> Some d' | None \<Rightarrow> if r' = r then Some d else None)"
| "mem_find r (WUpdate r' d # ms) = mem_find r ms"
| "mem_find r (WDelete r' # ms) = mem_find r ms"

definition mem_sdk :: "mem sdk" where
  "mem_sdk =
     \<lparr>getFirestore_fn = (\<lambda>b. Firestore ''[DEFAULT]''),
      getAuth_fn = (\<lambda>b. Auth ''[DEFAULT]''),
      currentUser_fn = (\<lambda>b a. mem_user b),
      collection_fn = (\<lambda>db p. if p = [] then Inl (FirebaseError ''invalid-argument'')
                               else Inr (CollectionReference p)),
      doc_fn = (\<lambda>db p. if p = [] then Inl (FirebaseError ''invalid-argument'')
                        else Inr (DocumentReference (last_segment p) p)),
      doc_auto_fn = (\<lambda>c b. (DocumentReference (replicate (Suc (mem_next_id b)) CHR ''k'')
                                (col_path c @ ''/'' @ replicate (Suc (mem_next_id b)) CHR ''k''),
                              b\<lparr>mem_next_id := Suc (mem_next_id b)\<rparr>)),
      batch_check_fn = (\<lambda>m. if map_of (mutation_data m) ''bad'' = None then None
                              else Some (FirebaseError ''invalid-argument'')),
      toDate_fn = (\<lambda>t. JsDate (seconds t * 1000 + int (nanoseconds t div 1000000))),
      signIn_fn = (\<lambda>a e p b. if p = ''secret''
                               then (Inr (), b\<lparr>mem_user := Some \<lparr>uid = ''u1'', email = Some e\<rparr>\<rparr>)
                               else (Inl (FirebaseError ''auth/wrong-password''), b)),
      signOut_fn = (\<lambda>a b. (Inr (), b\<lparr>mem_user := None\<rparr>)),
      getDoc_fn = (\<lambda>r b. (Inr (map_option (\<lambda>d. QueryDocumentSnapshot (\<lambda>opts. d))
                                     (mem_find r (mem_journal b))), b)),
      setDoc_fn = (\<lambda>r d opts b. (Inr (), b\<lparr>mem_journal := mem_journal b @ [WSet r d opts]\<rparr>)),
      updateDoc_fn = (\<lambda>r d b. (Inr (), b\<lparr>mem_journal := mem_journal b @ [WUpdate r d]\<rparr>)),
      deleteDoc_fn = (\<lambda>r b. (Inr (), b\<lparr>mem_journal := mem_journal b @ [WDelete r]\<rparr>)),
      batch_commit_fn = (\<lambda>batch b. if list_ex is_delete (wb_writes batch)
                                     then (Inl (FirebaseError ''permission-denied''), b)
                                     else (Inr (), b\<lparr>mem_journal := mem_journal b @ wb_writes batch\<rparr>))\<rparr>"

definition mem_world :: "mem world" where
  "mem_world = \<lparr>backend = \<lparr>mem_next_id = 0, mem_user = None, mem_journal = []\<rparr>, calls = []\<rparr>"

text \<open>Sample runs: a write, a commit and four more write calls of which the third throws;
  and three write calls of which the second is a delete.\<close>

definition demo_calls :: "batch_call list" where
  "demo_calls = [CallSet (DocPath ''orders/O0000'') [],
     CallCommit,
     CallSet (DocPath ''orders/O0001'') [(''orderType'', VStr ''dineIn'')],
     CallMerge (DocSegments [''orders'', ''O0001'']) [(''orderStatus'', VStr ''cancelled'')],
     CallSet (DocPath []) [],
     CallAdd (ColPath ''orders'') [(''id'', VStr ''mine'')]]"

definition denied_calls :: "batch_call list" where
  "denied_calls =
     [CallSet (DocPath ''orders/O0001'') [(''orderType'', VStr ''dineIn'')],
      CallDelete (DocPath ''orders/O0002''),
      CallUpdate (DocPath ''orders/O0003'') [(''orderStatus'', VStr ''completed'')]]"

definition three_sets :: "batch_call list" where
  "three_sets =
     [CallSet (DocPath ''orders/O0001'') [],
      CallSet (DocPath ''orders/O0002'') [],
      CallSet (DocPath ''orders/O0003'') []]"

text \<open>The state of the in-memory SDK after the first sample run.\<close>

definition demo_world :: "mem world" where
  "demo_world =
     \<lparr>backend =
        \<lparr>mem_next_id = 1, mem_user = None,
           mem_journal =
             [WSet (DocumentReference ''O0000'' ''orders/O0000'')
                [(''id'', VStr ''O0000''), (''createdAt'', VServerTimestamp)] None]\<rparr>,
      calls =
        [BatchCommit
           (WriteBatch (Firestore ''[DEFAULT]'')
              [WSet (DocumentReference ''O0000'' ''orders/O0000'')
                 [(''id'', VStr ''O0000''), (''createdAt'', VServerTimestamp)] None])]\<rparr>"

text \<open>Sample documents and references.\<close>

definition sample_data :: DocumentData where
  "sample_data = [(''id'', VStr ''mine''), (''orderType'', VStr ''dineIn'')]"

definition sample_ref :: DocumentReference where
  "sample_ref = DocumentReference ''O0001'' ''orders/O0001''"

definition sample_auto_ref :: DocumentReference where
  "sample_auto_ref = DocumentReference ''k'' ''orders/k''"

definition stored_order :: QueryDocumentSnapshot where
  "stored_order =
     QueryDocumentSnapshot
       (\<lambda>opts. [(''orderType'', VStr ''dineIn''),
                 (''createdAt'', VTimestamp (Timestamp 1700000000 500000000))])"

definition stored_numbered :: QueryDocumentSnapshot where
  "stored_numbered =
     QueryDocumentSnapshot (\<lambda>opts. [(''id'', VNum 42), (''orderType'', VStr ''dineIn'')])"

section \<open>Properties of FireBatch\<close>

lemma counter_ge_int: "counter_ge c (Finite (of_int N)) = (N \<le> int c)"
proof -
  have "(of_int N :: rat) \<le> of_nat c \<longleftrightarrow> (of_int N :: rat) \<le> of_int (int c)" by simp
  also have "\<dots> \<longleftrightarrow> N \<le> int c" by (rule of_int_le_iff)
  finally show ?thesis by simp
qed

lemma filled_new: "1 \<le> N \<Longrightarrow> filled N (new_FireBatch sdk lmt w)"
  by (simp add: filled_def new_FireBatch_def writeBatch_def)

lemma curBatch_write_total:
  "curBatch_write sdk wr fb w = Inr fb' \<Longrightarrow>
     totalCount fb' = totalCount fb + 1 \<and> countPerBatch fb' = countPerBatch fb \<and> batches fb' \<noteq> []"
  by (auto simp: curBatch_write_def updateCount_def Let_def curBatch_def batch_enqueue_def
      split: option.splits sum.splits if_splits)

lemma curBatch_write_filled:
  assumes "countPerBatch fb = Finite (of_int N)" and "1 \<le> N" and "filled N fb"
      and "curBatch_write sdk wr fb w = Inr fb'"
  shows "filled N fb'"
proof -
  from assms(3) have ne: "batches fb \<noteq> []" by (simp add: filled_def)
  from assms(4) ne obtain b' where
    e: "batch_enqueue sdk wr (last (batches fb)) = Inr b'" and
    f: "fb' = updateCount sdk (fb\<lparr>batches := butlast (batches fb) @ [b']\<rparr>) w"
    by (auto simp: curBatch_write_def curBatch_def split: sum.splits)
  from e have b': "wb_writes b' = wb_writes (last (batches fb)) @ [wr]"
    by (auto simp: batch_enqueue_def split: option.splits)
  have ge: "counter_ge (curCount fb + 1) (countPerBatch fb) = (N \<le> int (curCount fb) + 1)"
    unfolding assms(1) counter_ge_int by (simp add: add.commute)
  show ?thesis
  proof (cases "int (curCount fb) + 1 \<ge> N")
    case True
    with assms(3) have eq: "int (curCount fb) + 1 = N" by (simp add: filled_def)
    have "fb' = fb\<lparr>curCount := 0, totalCount := totalCount fb + 1,
        batches := butlast (batches fb) @ [b'] @ [writeBatch (FireBatch_db sdk w)]\<rparr>"
      using True f ge by (simp add: updateCount_def Let_def)
    then show ?thesis using assms(2,3) b' eq ne
      by (auto simp: filled_def writeBatch_def butlast_append algebra_simps list_all_iff)
  next
    case False
    have "fb' = fb\<lparr>curCount := curCount fb + 1, totalCount := totalCount fb + 1,
        batches := butlast (batches fb) @ [b']\<rparr>"
      using False f ge by (simp add: updateCount_def Let_def)
    then show ?thesis using assms(2,3) b' False ne
      by (auto simp: filled_def butlast_append algebra_simps list_all_iff)
  qed
qed

lemma curBatch_write_queued:
  assumes "curBatch_write sdk wr fb w = Inr fb'"
  shows "queued fb' = queued fb @ [wr]"
proof -
  from assms have ne: "batches fb \<noteq> []"
    by (auto simp: curBatch_write_def curBatch_def split: if_splits)
  from assms ne obtain b' where
    e: "batch_enqueue sdk wr (last (batches fb)) = Inr b'" and
    f: "fb' = updateCount sdk (fb\<lparr>batches := butlast (batches fb) @ [b']\<rparr>) w"
    by (auto simp: curBatch_write_def curBatch_def split: sum.splits)
  from e have b': "wb_writes b' = wb_writes (last (batches fb)) @ [wr]"
    by (auto simp: batch_enqueue_def split: option.splits)
  have "concat (map wb_writes (butlast (batches fb) @ [last (batches fb)])) = queued fb"
    using ne by (simp add: queued_def)
  then have "concat (map wb_writes (butlast (batches fb))) @ wb_writes (last (batches fb)) = queued fb"
    by simp
  then show ?thesis using f b'
    by (simp add: queued_def updateCount_def Let_def writeBatch_def)
qed

lemma FireBatch_add_cases:
  assumes "FireBatch_add sdk c d fb w = (r, fb', w')"
  shows "(isl r \<and> fb' = fb) \<or>
         (\<exists>col docRef. getColRef sdk c w = Inr col \<and> doc_auto sdk col w = (docRef, w') \<and>
            r = Inr (doc_id docRef) \<and>
            curBatch_write sdk
              (WSet docRef (AList.update ''createdAt'' serverTimestamp
                 (AList.update ''id'' (VStr (doc_id docRef)) d)) None) fb w' = Inr fb')"
  using assms by (auto simp: FireBatch_add_def Let_def split: sum.splits prod.splits)

lemma FireBatch_set_cases:
  assumes "FireBatch_set sdk p d fb w = (r, fb', w')"
  shows "(isl r \<and> fb' = fb) \<or>
         (\<exists>docRef. getDocRef sdk (Inl p) w = (Inr docRef, w') \<and> r = Inr () \<and>
            curBatch_write sdk
              (WSet docRef (AList.update ''createdAt'' serverTimestamp
                 (AList.update ''id'' (VStr (doc_id docRef)) d)) None) fb w' = Inr fb')"
  using assms by (auto simp: FireBatch_set_def split: sum.splits prod.splits)

lemma FireBatch_merge_cases:
  assumes "FireBatch_merge sdk p d fb w = (r, fb', w')"
  shows "(isl r \<and> fb' = fb) \<or>
         (\<exists>docRef. getDocRef sdk (Inl p) w = (Inr docRef, w') \<and> r = Inr () \<and>
            curBatch_write sdk
              (WSet docRef (AList.update ''updatedAt'' serverTimestamp
                 (AList.update ''id'' (VStr (doc_id docRef)) d)) (Some (SetOptions True))) fb w' = Inr fb')"
  using assms by (auto simp: FireBatch_merge_def split: sum.splits prod.splits)

lemma FireBatch_update_cases:
  assumes "FireBatch_update sdk p d fb w = (r, fb', w')"
  shows "(isl r \<and> fb' = fb) \<or>
         (\<exists>docRef. getDocRef sdk (Inl p) w = (Inr docRef, w') \<and> r = Inr () \<and>
            curBatch_write sdk
              (WUpdate docRef (AList.update ''updatedAt'' serverTimestamp
                 (AList.update ''id'' (VStr (doc_id docRef)) d))) fb w' = Inr fb')"
  using assms by (auto simp: FireBatch_update_def split: sum.splits prod.splits)

lemma FireBatch_delete_cases:
  assumes "FireBatch_delete sdk p fb w = (r, fb', w')"
  shows "(isl r \<and> fb' = fb) \<or>
         (\<exists>docRef. getDocRef sdk (Inl p) w = (Inr docRef, w') \<and> r = Inr () \<and>
            curBatch_write sdk (WDelete docRef) fb w' = Inr fb')"
  using assms by (auto simp: FireBatch_delete_def split: sum.splits prod.splits)

lemma commit_reset:
  assumes "commit sdk fb w = (Inr t, fb', w')"
  shows "commit_loop sdk (batches fb) w = (None, w') \<and> t = totalCount fb \<and>
         fb' = \<lparr>totalCount = 0, curCount = 0, batches = [writeBatch (FireBatch_db sdk w')],
                countPerBatch = countPerBatch fb\<rparr>"
  using assms by (auto simp: commit_def Let_def split: prod.splits option.splits)

lemma commit_ok:
  assumes "commit_loop sdk (batches fb) w = (None, w')"
  shows "commit sdk fb w =
           (Inr (totalCount fb),
            \<lparr>totalCount = 0, curCount = 0, batches = [writeBatch (FireBatch_db sdk w')],
               countPerBatch = countPerBatch fb\<rparr>, w')"
  using assms by (simp add: commit_def Let_def)

lemma commit_unchanged:
  assumes "commit sdk fb w = (Inl e, fb', w')"
  shows "fb' = fb"
  using assms by (auto simp: commit_def Let_def split: prod.splits option.splits)

lemma invoke_cases:
  assumes "invoke sdk c fb w = (out, fb', w')"
  shows "(out = Threw \<and> fb' = fb) \<or>
         (out = Wrote \<and> (\<exists>wr w1. curBatch_write sdk wr fb w1 = Inr fb')) \<or>
         (out = Committed \<and>
            fb' = \<lparr>totalCount = 0, curCount = 0, batches = [writeBatch (FireBatch_db sdk w')],
                   countPerBatch = countPerBatch fb\<rparr>)"
proof (cases c)
  case (CallAdd x d)
  with assms obtain r where "FireBatch_add sdk x d fb w = (r, fb', w')"
    and "out = (if isl r then Threw else Wrote)"
    by (auto split: prod.splits)
  then show ?thesis using FireBatch_add_cases[of sdk x d fb w r fb' w'] by auto
next
  case (CallSet x d)
  with assms obtain r where "FireBatch_set sdk x d fb w = (r, fb', w')"
    and "out = (if isl r then Threw else Wrote)"
    by (auto split: prod.splits)
  then show ?thesis using FireBatch_set_cases[of sdk x d fb w r fb' w'] by auto
next
  case (CallMerge x d)
  with assms obtain r where "FireBatch_merge sdk x d fb w = (r, fb', w')"
    and "out = (if isl r then Threw else Wrote)"
    by (auto split: prod.splits)
  then show ?thesis using FireBatch_merge_cases[of sdk x d fb w r fb' w'] by auto
next
  case (CallUpdate x d)
  with assms obtain r where "FireBatch_update sdk x d fb w = (r, fb', w')"
    and "out = (if isl r then Threw else Wrote)"
    by (auto split: prod.splits)
  then show ?thesis using FireBatch_update_cases[of sdk x d fb w r fb' w'] by auto
next
  case (CallDelete x)
  with assms obtain r where "FireBatch_delete sdk x fb w = (r, fb', w')"
    and "out = (if isl r then Threw else Wrote)"
    by (auto split: prod.splits)
  then show ?thesis using FireBatch_delete_cases[of sdk x fb w r fb' w'] by auto
next
  case CallCommit
  with assms obtain r where c: "commit sdk fb w = (r, fb', w')"
    and o: "out = (if isl r then Threw else Committed)"
    by (auto split: prod.splits)
  show ?thesis
  proof (cases r)
    case (Inl e)
    with c o commit_unchanged[of sdk fb w e fb' w'] show ?thesis by simp
  next
    case (Inr t)
    with c o commit_reset[of sdk fb w t fb' w'] show ?thesis by simp
  qed
qed

lemma invoke_counts:
  assumes "invoke sdk c fb w = (out, fb', w')"
      and "totalCount fb = n" and "length (queued fb) = n"
  shows "totalCount fb' = tally out n \<and> length (queued fb') = tally out n \<and>
         countPerBatch fb' = countPerBatch fb \<and>
         (countPerBatch fb = Finite (of_int N) \<longrightarrow> 1 \<le> N \<longrightarrow> filled N fb \<longrightarrow> filled N fb')"
proof -
  consider (threw) "out = Threw" "fb' = fb"
    | (wrote) wr w1 where "out = Wrote" "curBatch_write sdk wr fb w1 = Inr fb'"
    | (committed) "out = Committed"
        "fb' = \<lparr>totalCount = 0, curCount = 0, batches = [writeBatch (FireBatch_db sdk w')],
                 countPerBatch = countPerBatch fb\<rparr>"
    using invoke_cases[OF assms(1)] by blast
  then show ?thesis
  proof cases
    case threw
    with assms(2,3) show ?thesis by simp
  next
    case wrote
    from curBatch_write_total[OF wrote(2)] curBatch_write_queued[OF wrote(2)]
      curBatch_write_filled[OF _ _ _ wrote(2)] wrote(1) assms(2,3)
    show ?thesis by auto
  next
    case committed
    then show ?thesis by (simp add: queued_def writeBatch_def filled_def)
  qed
qed

lemma run_from_counts:
  "run_from sdk cs n fb w = (n', fb', w') \<Longrightarrow> totalCount fb = n \<Longrightarrow> length (queued fb) = n \<Longrightarrow>
     totalCount fb' = n' \<and> length (queued fb') = n' \<and>
     countPerBatch fb' = countPerBatch fb \<and>
     (countPerBatch fb = Finite (of_int N) \<longrightarrow> 1 \<le> N \<longrightarrow> filled N fb \<longrightarrow> filled N fb')"
proof (induction cs arbitrary: n fb w)
  case Nil
  then show ?case by simp
next
  case (Cons c cs)
  obtain out fb1 w1 where i: "invoke sdk c fb w = (out, fb1, w1)"
    by (cases "invoke sdk c fb w") auto
  with Cons.prems(1) have r: "run_from sdk cs (tally out n) fb1 w1 = (n', fb', w')" by simp
  from invoke_counts[OF i Cons.prems(2,3), of N]
  have s: "totalCount fb1 = tally out n" "length (queued fb1) = tally out n"
    "countPerBatch fb1 = countPerBatch fb"
    "countPerBatch fb = Finite (of_int N) \<longrightarrow> 1 \<le> N \<longrightarrow> filled N fb \<longrightarrow> filled N fb1"
    by simp_all
  from Cons.IH[OF r s(1,2)] s(3,4) show ?case by auto
qed

lemma run_calls_counts:
  assumes "run_calls sdk cs (new_FireBatch sdk lmt w0) w1 = (n, fb, w)"
  shows "totalCount fb = n \<and> length (queued fb) = n \<and>
         countPerBatch fb = countPerBatch (new_FireBatch sdk lmt w0) \<and>
         (countPerBatch (new_FireBatch sdk lmt w0) = Finite (of_int N) \<longrightarrow> 1 \<le> N \<longrightarrow> filled N fb)"
proof -
  have t: "totalCount (new_FireBatch sdk lmt w0) = 0"
    and q: "length (queued (new_FireBatch sdk lmt w0)) = 0"
    by (simp_all add: new_FireBatch_def queued_def writeBatch_def)
  from assms have "run_from sdk cs 0 (new_FireBatch sdk lmt w0) w1 = (n, fb, w)"
    by (simp add: run_calls_def)
  from run_from_counts[OF this t q, of N] filled_new[of N sdk lmt w0] show ?thesis by auto
qed

lemma filled_batchCount:
  assumes "1 \<le> N" and "filled N fb"
  shows "batchCount fb = totalCount fb div nat N + 1"
proof -
  define c where "c = nat N"
  define k where "k = length (batches fb) - 1"
  from assms have c: "N = int c" "0 < c" by (simp_all add: c_def)
  from assms(2) have len: "length (batches fb) = k + 1"
    by (cases "batches fb") (simp_all add: filled_def k_def)
  from assms(2) c len have "int (totalCount fb) = int (k * c + curCount fb)" "curCount fb < c"
    by (simp_all add: filled_def)
  then have "totalCount fb = k * c + curCount fb" "curCount fb < c" by linarith+
  then have "totalCount fb div c = k" using c(2) by simp
  then show ?thesis using len by (simp add: batchCount_def c_def)
qed

lemma mem_simps:
  "getFirestore mem_sdk w = Firestore ''[DEFAULT]''"
  "doc mem_sdk db p = (if p = [] then Inl (FirebaseError ''invalid-argument'') else Inr (DocumentReference (last_segment p) p))"
  "collection mem_sdk db p = (if p = [] then Inl (FirebaseError ''invalid-argument'') else Inr (CollectionReference p))"
  "batch_check_fn mem_sdk m = (if map_of (mutation_data m) ''bad'' = None then None else Some (FirebaseError ''invalid-argument''))"
  by (simp_all add: mem_sdk_def getFirestore_def doc_def collection_def)


lemma mem_doc_auto:
  "doc_auto mem_sdk c w = (DocumentReference (replicate (Suc (mem_next_id (backend w))) CHR ''k'')
                                (col_path c @ ''/'' @ replicate (Suc (mem_next_id (backend w))) CHR ''k''),
                              w\<lparr>backend := (backend w)\<lparr>mem_next_id := Suc (mem_next_id (backend w))\<rparr>\<rparr>)"
  by (simp add: mem_sdk_def doc_auto_def)

lemma mem_batch_commit:
  "batch_commit mem_sdk b w =
     (if list_ex is_delete (wb_writes b)
      then (Inl (FirebaseError ''permission-denied''), w\<lparr>calls := calls w @ [BatchCommit b]\<rparr>)
      else (Inr (), w\<lparr>backend := (backend w)\<lparr>mem_journal := mem_journal (backend w) @ wb_writes b\<rparr>,
                      calls := calls w @ [BatchCommit b]\<rparr>))"
  by (simp add: batch_commit_def await_def mem_sdk_def)

lemmas FireBatch_eval =
  run_calls_def new_FireBatch_def FireBatch_db_def writeBatch_def FireBatch_set_def
  FireBatch_add_def FireBatch_merge_def FireBatch_update_def FireBatch_delete_def
  commit_def mem_batch_commit mem_simps mem_doc_auto curBatch_write_def curBatch_def
  batch_enqueue_def updateCount_def Let_def serverTimestamp_def last_segment_def

lemma commit_loop_append:
  "commit_loop sdk (pre @ post) w =
     (case commit_loop sdk pre w of
        (Some e, w') \<Rightarrow> (Some e, w')
      | (None, w') \<Rightarrow> commit_loop sdk post w')"
  by (induction pre arbitrary: w) (auto split: prod.splits sum.splits option.splits)

lemma batch_commit_calls:
  "batch_commit sdk b w = (r, w') \<Longrightarrow> calls w' = calls w @ [BatchCommit b]"
  by (auto simp: batch_commit_def await_def split: prod.splits)

lemma commit_loop_calls:
  "commit_loop sdk bs w = (None, w') \<Longrightarrow> calls w' = calls w @ map BatchCommit bs"
proof (induction bs arbitrary: w)
  case Nil
  then show ?case by simp
next
  case (Cons b bs)
  obtain r w1 where c: "batch_commit sdk b w = (r, w1)" by (cases "batch_commit sdk b w") auto
  with Cons.prems obtain u where "r = Inr u" and l: "commit_loop sdk bs w1 = (None, w')"
    by (cases r) auto
  from batch_commit_calls[OF c] Cons.IH[OF l] show ?case by simp
qed

lemma demo_run:
  "run_calls mem_sdk demo_calls (new_FireBatch mem_sdk (Some (Finite 2)) mem_world) mem_world =
     (3, \<lparr>totalCount = 3, curCount = 1,
          batches =
            [WriteBatch (Firestore ''[DEFAULT]'')
               [WSet (DocumentReference ''O0001'' ''orders/O0001'')
                  [(''orderType'', VStr ''dineIn''), (''id'', VStr ''O0001''),
                   (''createdAt'', VServerTimestamp)] None,
                WSet (DocumentReference ''O0001'' ''orders/O0001'')
                  [(''orderStatus'', VStr ''cancelled''), (''id'', VStr ''O0001''),
                   (''updatedAt'', VServerTimestamp)] (Some (SetOptions True))],
             WriteBatch (Firestore ''[DEFAULT]'')
               [WSet (DocumentReference ''k'' ''orders/k'')
                  [(''id'', VStr ''k''), (''createdAt'', VServerTimestamp)] None]],
          countPerBatch = Finite 2\<rparr>,
      demo_world)"
  by (simp add: demo_calls_def FireBatch_eval mem_world_def demo_world_def)

lemma demo_run3:
  "run_calls mem_sdk demo_calls (new_FireBatch mem_sdk (Some (Finite 3)) mem_world) mem_world =
     (3, \<lparr>totalCount = 3, curCount = 0,
          batches =
            [WriteBatch (Firestore ''[DEFAULT]'')
               [WSet (DocumentReference ''O0001'' ''orders/O0001'')
                  [(''orderType'', VStr ''dineIn''), (''id'', VStr ''O0001''),
                   (''createdAt'', VServerTimestamp)] None,
                WSet (DocumentReference ''O0001'' ''orders/O0001'')
                  [(''orderStatus'', VStr ''cancelled''), (''id'', VStr ''O0001''),
                   (''updatedAt'', VServerTimestamp)] (Some (SetOptions True)),
                WSet (DocumentReference ''k'' ''orders/k'')
                  [(''id'', VStr ''k''), (''createdAt'', VServerTimestamp)] None],
             WriteBatch (Firestore ''[DEFAULT]'') []],
          countPerBatch = Finite 3\<rparr>,
      demo_world)"
  by (simp add: demo_calls_def FireBatch_eval mem_world_def demo_world_def)

lemma denied_run:
  "run_calls mem_sdk denied_calls (new_FireBatch mem_sdk (Some (Finite 1)) mem_world) mem_world =
     (3, \<lparr>totalCount = 3, curCount = 0,
          batches =
            [WriteBatch (Firestore ''[DEFAULT]'')
               [WSet (DocumentReference ''O0001'' ''orders/O0001'')
                  [(''orderType'', VStr ''dineIn''), (''id'', VStr ''O0001''),
                   (''createdAt'', VServerTimestamp)] None],
             WriteBatch (Firestore ''[DEFAULT]'')
               [WDelete (DocumentReference ''O0002'' ''orders/O0002'')],
             WriteBatch (Firestore ''[DEFAULT]'')
               [WUpdate (DocumentReference ''O0003'' ''orders/O0003'')
                  [(''orderStatus'', VStr ''completed''), (''id'', VStr ''O0003''),
                   (''updatedAt'', VServerTimestamp)]],
             WriteBatch (Firestore ''[DEFAULT]'') []],
          countPerBatch = Finite 1\<rparr>,
      mem_world)"
  by (simp add: denied_calls_def FireBatch_eval)

text \<open>
  Claim C1, as amended. For a FireBatch built with a limit \<open>N\<close> of at least one (the
  default is 495) and any sequence of \<open>add\<close>, \<open>set\<close>, \<open>merge\<close>, \<open>update\<close> and \<open>delete\<close> calls
  (and commits between them), no batch object holds more than \<open>N\<close> writes; a new batch object is opened exactly when
  the current one has reached \<open>N\<close> writes, so every batch but the newest holds exactly \<open>N\<close>
  and the newest holds fewer; and every write that returned since the last successful
  commit is held by some batch.
\<close>

theorem FireBatch_batches_within_limit:
  assumes "(case lmt of None \<Rightarrow> DEF_COUNT_PER_BATCH | Some c \<Rightarrow> c) = Finite (of_int N)"
      and "1 \<le> N"
      and "run_calls sdk cs (new_FireBatch sdk lmt w0) w1 = (n, fb, w)"
  shows "list_all (\<lambda>b. int (length (wb_writes b)) \<le> N) (batches fb) \<and>
         list_all (\<lambda>b. int (length (wb_writes b)) = N) (butlast (batches fb)) \<and>
         batches fb \<noteq> [] \<and>
         int (length (wb_writes (last (batches fb)))) < N \<and>
         length (queued fb) = n"
proof -
  have c0: "countPerBatch (new_FireBatch sdk lmt w0) = Finite (of_int N)"
    using assms(1) by (simp add: new_FireBatch_def)
  from run_calls_counts[OF assms(3), of N] c0 assms(2)
  have f: "filled N fb" and q: "length (queued fb) = n" by auto
  from f have ne: "batches fb \<noteq> []"
    and full: "list_all (\<lambda>b. int (length (wb_writes b)) = N) (butlast (batches fb))"
    and lst: "int (length (wb_writes (last (batches fb)))) < N"
    by (auto simp: filled_def)
  have "list_all (\<lambda>b. int (length (wb_writes b)) \<le> N) (butlast (batches fb) @ [last (batches fb)])"
    using full lst by (auto simp: list_all_iff)
  then have all: "list_all (\<lambda>b. int (length (wb_writes b)) \<le> N) (batches fb)"
    using ne by simp
  from all full ne lst q show ?thesis by simp
qed

text \<open>The theorem above at a concrete run of the in-memory SDK.\<close>

theorem FireBatch_batches_within_limit_witness:
  "(1::int) \<le> 2 \<and>
   map (\<lambda>b. length (wb_writes b))
     (batches (fst (snd (run_calls mem_sdk demo_calls (new_FireBatch mem_sdk (Some (Finite 2)) mem_world) mem_world))))
     = [2, 1] \<and>
   list_all (\<lambda>b. int (length (wb_writes b)) \<le> 2)
     (batches (fst (snd (run_calls mem_sdk demo_calls (new_FireBatch mem_sdk (Some (Finite 2)) mem_world) mem_world)))) \<and>
   length (queued (fst (snd (run_calls mem_sdk demo_calls (new_FireBatch mem_sdk (Some (Finite 2)) mem_world) mem_world))))
     = fst (run_calls mem_sdk demo_calls (new_FireBatch mem_sdk (Some (Finite 2)) mem_world) mem_world)"
proof -
  let ?run = "run_calls mem_sdk demo_calls (new_FireBatch mem_sdk (Some (Finite 2)) mem_world) mem_world"
  have lmt: "(case Some (Finite 2) of None \<Rightarrow> DEF_COUNT_PER_BATCH | Some c \<Rightarrow> c) = Finite (of_int 2)"
    by simp
  have one: "(1::int) \<le> 2" by simp
  have run: "?run = (fst ?run, fst (snd ?run), snd (snd ?run))" by simp
  have shape: "map (\<lambda>b. length (wb_writes b)) (batches (fst (snd ?run))) = [2, 1]"
    by (simp add: demo_run)
  from FireBatch_batches_within_limit[OF lmt one run] shape one show ?thesis by blast
qed

text \<open>
  Claim C1 as stated fails for the limit 0: the first write goes to the first batch,
  which then holds one write, more than the limit.
\<close>

theorem FireBatch_limit_zero_counterexample:
  "\<not> list_all (\<lambda>b. int (length (wb_writes b)) \<le> 0)
       (batches (fst (snd (run_calls mem_sdk [CallSet (DocPath ''orders/O0001'') []]
                             (new_FireBatch mem_sdk (Some (Finite 0)) mem_world) mem_world))))"
  by (simp add: FireBatch_eval)

text \<open>
  Claim C8, as amended. For an integer limit \<open>c \<ge> 1\<close> and any sequence of writes and commits, with \<open>n\<close> the
  number of writes since construction or since the last successful commit,
  \<open>batchCount\<close> is \<open>n div c + 1\<close>; after exactly \<open>c\<close> writes it is 2 and the newest batch is
  empty; and when \<open>n\<close> is a positive multiple of \<open>c\<close> it exceeds the ceiling of \<open>n / c\<close>,
  here \<open>(n + c - 1) div c\<close>.
\<close>

theorem FireBatch_batchCount_after_writes:
  assumes "1 \<le> c"
      and "run_calls sdk cs (new_FireBatch sdk (Some (Finite (of_int c))) w0) w1 = (n, fb, w)"
  shows "batchCount fb = n div nat c + 1 \<and>
         (n = nat c \<longrightarrow> batchCount fb = 2 \<and> wb_writes (last (batches fb)) = []) \<and>
         (0 < n \<and> n mod nat c = 0 \<longrightarrow> (n + nat c - 1) div nat c < batchCount fb)"
proof -
  have c0: "countPerBatch (new_FireBatch sdk (Some (Finite (of_int c))) w0) = Finite (of_int c)"
    by (simp add: new_FireBatch_def)
  from run_calls_counts[OF assms(2), of c] c0 assms(1)
  have tf: "totalCount fb = n" and ff: "filled c fb" by auto
  from filled_batchCount[of c fb] tf ff assms(1)
  have bc: "batchCount fb = n div nat c + 1" by simp
  have pos: "0 < nat c" using assms(1) by simp
  have two: "batchCount fb = 2 \<and> wb_writes (last (batches fb)) = []" if "n = nat c"
  proof -
    from that bc pos have b2: "batchCount fb = 2" by simp
    from ff tf that b2 assms(1) have "int (curCount fb) = 0"
      by (simp add: filled_def batchCount_def)
    with ff have "length (wb_writes (last (batches fb))) = 0" by (simp add: filled_def)
    with b2 show ?thesis by simp
  qed
  have ceil: "(n + nat c - 1) div nat c < batchCount fb" if "0 < n" "n mod nat c = 0"
  proof -
    from that(2) have "nat c dvd n" by (simp add: dvd_eq_mod_eq_0)
    then obtain k where k: "n = k * nat c" by (auto simp: dvd_def mult.commute)
    with that(1) have kpos: "0 < k" by (cases k) simp_all
    define r where "r = nat c - 1"
    have r: "r < nat c" "n + nat c - 1 = k * nat c + r" using pos k by (simp_all add: r_def)
    have "(k * nat c + r) div nat c = k" using r(1) by simp
    with r(2) have "(n + nat c - 1) div nat c = k" by simp
    moreover have "n div nat c = k" using k pos by simp
    ultimately show ?thesis using bc by simp
  qed
  have two': "n = nat c \<longrightarrow> batchCount fb = 2 \<and> wb_writes (last (batches fb)) = []"
    using two by (rule impI)
  have ceil': "0 < n \<and> n mod nat c = 0 \<longrightarrow> (n + nat c - 1) div nat c < batchCount fb"
  proof (intro impI, elim conjE)
    assume "0 < n" and "n mod nat c = 0"
    then show "(n + nat c - 1) div nat c < batchCount fb" by (rule ceil)
  qed
  show ?thesis by (rule conjI[OF bc conjI[OF two' ceil']])
qed

text \<open>The theorem above at a concrete run of the in-memory SDK.\<close>

theorem FireBatch_batchCount_after_writes_witness:
  "(1::int) \<le> 3 \<and>
   fst (run_calls mem_sdk demo_calls (new_FireBatch mem_sdk (Some (Finite 3)) mem_world) mem_world) = nat 3 \<and>
   batchCount (fst (snd (run_calls mem_sdk demo_calls (new_FireBatch mem_sdk (Some (Finite 3)) mem_world) mem_world))) = 2 \<and>
   wb_writes (last (batches (fst (snd (run_calls mem_sdk demo_calls (new_FireBatch mem_sdk (Some (Finite 3)) mem_world) mem_world))))) = []"
proof -
  let ?run = "run_calls mem_sdk demo_calls (new_FireBatch mem_sdk (Some (Finite 3)) mem_world) mem_world"
  have one: "(1::int) \<le> 3" by simp
  have run: "run_calls mem_sdk demo_calls (new_FireBatch mem_sdk (Some (Finite (of_int 3))) mem_world) mem_world
      = (fst ?run, fst (snd ?run), snd (snd ?run))"
    by simp
  have n: "fst ?run = nat 3" by (simp add: demo_run3)
  from FireBatch_batchCount_after_writes[OF one run] n one show ?thesis by blast
qed

text \<open>
  Claim C8 as stated fails for a limit that is not an integer: at the limit 3/2 a batch
  is full after two writes, so three writes leave two batches, while
  \<open>floor (3 / (3/2)) + 1\<close> is 3.
\<close>

theorem FireBatch_fractional_limit_counterexample:
  "(1::rat) \<le> 3 / 2 \<and>
   fst (run_calls mem_sdk three_sets (new_FireBatch mem_sdk (Some (Finite (3 / 2))) mem_world) mem_world) = 3 \<and>
   batchCount (fst (snd (run_calls mem_sdk three_sets
                           (new_FireBatch mem_sdk (Some (Finite (3 / 2))) mem_world) mem_world))) = 2 \<and>
   \<lfloor>(3::rat) / (3 / 2)\<rfloor> + 1 = (3::int)"
  by (simp add: three_sets_def FireBatch_eval batchCount_def)

text \<open>
  Claim C9. When every batch commit succeeds, \<open>commit\<close> returns the number of writes
  (all five kinds counted) made since construction or since the previous successful
  commit, and leaves an accumulator with one empty batch, whose commit, when it
  succeeds, returns 0.
\<close>

theorem FireBatch_commit_returns_total:
  assumes "run_calls sdk cs (new_FireBatch sdk lmt w0) w1 = (n, fb, w)"
      and "commit_loop sdk (batches fb) w = (None, w')"
  shows "\<exists>fb'. commit sdk fb w = (Inr n, fb', w') \<and> batchCount fb' = 1 \<and> queued fb' = [] \<and>
           (\<forall>w2 w3. commit_loop sdk (batches fb') w2 = (None, w3)
              \<longrightarrow> fst (commit sdk fb' w2) = Inr 0)"
proof -
  from run_calls_counts[OF assms(1)] have tf: "totalCount fb = n" by simp
  let ?fb' = "\<lparr>totalCount = 0, curCount = 0, batches = [writeBatch (FireBatch_db sdk w')],
               countPerBatch = countPerBatch fb\<rparr>"
  from commit_ok[OF assms(2)] tf have 1: "commit sdk fb w = (Inr n, ?fb', w')" by simp
  have 2: "batchCount ?fb' = 1" by (simp add: batchCount_def)
  have 3: "queued ?fb' = []" by (simp add: queued_def writeBatch_def)
  have 4: "fst (commit sdk ?fb' w2) = Inr 0" if "commit_loop sdk (batches ?fb') w2 = (None, w3)" for w2 w3
    using commit_ok[OF that] by simp
  from 1 2 3 4 show ?thesis by blast
qed

text \<open>The theorem above at a concrete run of the in-memory SDK.\<close>

theorem FireBatch_commit_returns_total_witness:
  "fst (commit mem_sdk
          (fst (snd (run_calls mem_sdk demo_calls (new_FireBatch mem_sdk (Some (Finite 2)) mem_world) mem_world)))
          (snd (snd (run_calls mem_sdk demo_calls (new_FireBatch mem_sdk (Some (Finite 2)) mem_world) mem_world))))
     = Inr 3"
proof -
  let ?run = "run_calls mem_sdk demo_calls (new_FireBatch mem_sdk (Some (Finite 2)) mem_world) mem_world"
  have run: "?run = (fst ?run, fst (snd ?run), snd (snd ?run))" by simp
  have "fst (commit_loop mem_sdk (batches (fst (snd ?run))) (snd (snd ?run))) = None"
    by (simp add: demo_run mem_batch_commit)
  then have ok: "commit_loop mem_sdk (batches (fst (snd ?run))) (snd (snd ?run)) =
      (None, snd (commit_loop mem_sdk (batches (fst (snd ?run))) (snd (snd ?run))))"
    by (metis prod.collapse)
  have n: "fst ?run = 3" by (simp add: demo_run)
  from FireBatch_commit_returns_total[OF run ok] n show ?thesis by auto
qed

text \<open>
  Claim C5. \<open>commit\<close> sends the batches one after another in the order they were opened.
  When the batches before some batch commit and that batch is rejected, the error is the
  result, the state of the service is the one after the earlier commits and the rejected
  attempt, no later batch is sent, and the accumulator is left as it was: its counters
  and batch list are not reset, and no count is returned.
\<close>

theorem FireBatch_commit_not_atomic:
  assumes "batches fb = pre @ failing # post"
      and "commit_loop sdk pre w = (None, w1)"
      and "batch_commit sdk failing w1 = (Inl e, w2)"
  shows "commit sdk fb w = (Inl e, fb, w2) \<and>
         calls w2 = calls w @ map BatchCommit pre @ [BatchCommit failing] \<and>
         (\<forall>t fb' w'. commit sdk fb w \<noteq> (Inr t, fb', w'))"
proof -
  have "commit_loop sdk (failing # post) w1 = (Some e, w2)" using assms(3) by simp
  with assms(1,2) have l: "commit_loop sdk (batches fb) w = (Some e, w2)"
    by (simp add: commit_loop_append)
  then have 1: "commit sdk fb w = (Inl e, fb, w2)" by (simp add: commit_def)
  from commit_loop_calls[OF assms(2)] batch_commit_calls[OF assms(3)]
  have 2: "calls w2 = calls w @ map BatchCommit pre @ [BatchCommit failing]" by simp
  from 1 2 show ?thesis by simp
qed

text \<open>The theorem above at a concrete run of the in-memory SDK.\<close>

theorem FireBatch_commit_not_atomic_witness:
  "fst (commit mem_sdk
          (fst (snd (run_calls mem_sdk denied_calls (new_FireBatch mem_sdk (Some (Finite 1)) mem_world) mem_world)))
          mem_world) = Inl (FirebaseError ''permission-denied'') \<and>
   fst (snd (commit mem_sdk
          (fst (snd (run_calls mem_sdk denied_calls (new_FireBatch mem_sdk (Some (Finite 1)) mem_world) mem_world)))
          mem_world))
     = fst (snd (run_calls mem_sdk denied_calls (new_FireBatch mem_sdk (Some (Finite 1)) mem_world) mem_world)) \<and>
   mem_journal (backend (snd (snd (commit mem_sdk
          (fst (snd (run_calls mem_sdk denied_calls (new_FireBatch mem_sdk (Some (Finite 1)) mem_world) mem_world)))
          mem_world))))
     = [WSet (DocumentReference ''O0001'' ''orders/O0001'')
          [(''orderType'', VStr ''dineIn''), (''id'', VStr ''O0001''),
           (''createdAt'', VServerTimestamp)] None]"
proof -
  let ?fb = "fst (snd (run_calls mem_sdk denied_calls (new_FireBatch mem_sdk (Some (Finite 1)) mem_world) mem_world))"
  let ?b1 = "WriteBatch (Firestore ''[DEFAULT]'')
               [WSet (DocumentReference ''O0001'' ''orders/O0001'')
                  [(''orderType'', VStr ''dineIn''), (''id'', VStr ''O0001''),
                   (''createdAt'', VServerTimestamp)] None]"
  let ?b2 = "WriteBatch (Firestore ''[DEFAULT]'') [WDelete (DocumentReference ''O0002'' ''orders/O0002'')]"
  let ?post = "[WriteBatch (Firestore ''[DEFAULT]'')
               [WUpdate (DocumentReference ''O0003'' ''orders/O0003'')
                  [(''orderStatus'', VStr ''completed''), (''id'', VStr ''O0003''),
                   (''updatedAt'', VServerTimestamp)]],
             WriteBatch (Firestore ''[DEFAULT]'') []]"
  let ?w1 = "mem_world\<lparr>backend := (backend mem_world)\<lparr>mem_journal := wb_writes ?b1\<rparr>,
                       calls := [BatchCommit ?b1]\<rparr>"
  let ?w2 = "?w1\<lparr>calls := calls ?w1 @ [BatchCommit ?b2]\<rparr>"
  have bs: "batches ?fb = [?b1] @ ?b2 # ?post" by (simp add: denied_run)
  have pre: "commit_loop mem_sdk [?b1] mem_world = (None, ?w1)"
    by (simp add: mem_batch_commit mem_world_def)
  have fail: "batch_commit mem_sdk ?b2 ?w1 = (Inl (FirebaseError ''permission-denied''), ?w2)"
    by (simp add: mem_batch_commit)
  from FireBatch_commit_not_atomic[OF bs pre fail]
  have "commit mem_sdk ?fb mem_world = (Inl (FirebaseError ''permission-denied''), ?fb, ?w2)" by blast
  then show ?thesis by (simp add: mem_world_def)
qed

section \<open>Properties of Fire, the reference helpers and the converter\<close>

lemma await_eq:
  "await rq f w = (fst (f (backend w)), w\<lparr>backend := snd (f (backend w)), calls := calls w @ [rq]\<rparr>)"
  by (simp add: await_def split: prod.splits)

lemma getDocRef_Inl_world: "getDocRef sdk (Inl p) w = (r, w1) \<Longrightarrow> w1 = w"
  by (cases p) auto

lemma doc_auto_calls: "doc_auto sdk c w = (r, w1) \<Longrightarrow> calls w1 = calls w"
  by (auto simp: doc_auto_def split: prod.splits)

lemma Fire_addDoc_eq:
  assumes "getColRef sdk c w = Inr col" and "doc_auto sdk col w = (r, w1)"
  shows "Fire_addDoc this sdk c data w =
     (map_sum id (\<lambda>u. r)
        (fst (setDoc_fn sdk r (AList.update ''createdAt'' VServerTimestamp
                (AList.update ''id'' (VStr (doc_id r)) data)) None (backend w1))),
      w1\<lparr>backend := snd (setDoc_fn sdk r (AList.update ''createdAt'' VServerTimestamp
                (AList.update ''id'' (VStr (doc_id r)) data)) None (backend w1)),
         calls := calls w @ [SetDoc r (AList.update ''createdAt'' VServerTimestamp
                (AList.update ''id'' (VStr (doc_id r)) data)) None]\<rparr>)"
  using assms doc_auto_calls[OF assms(2)]
  by (simp add: Fire_addDoc_def setDoc_def await_eq Fire_serverTs_def serverTimestamp_def split: sum.splits)

lemma Fire_setDoc_eq:
  assumes "getDocRef sdk (Inl p) w = (Inr r, w1)"
  shows "Fire_setDoc this sdk p data w =
     (map_sum id (\<lambda>u. r)
        (fst (setDoc_fn sdk r (AList.update ''createdAt'' VServerTimestamp
                (AList.update ''id'' (VStr (doc_id r)) data)) None (backend w))),
      w\<lparr>backend := snd (setDoc_fn sdk r (AList.update ''createdAt'' VServerTimestamp
                (AList.update ''id'' (VStr (doc_id r)) data)) None (backend w)),
         calls := calls w @ [SetDoc r (AList.update ''createdAt'' VServerTimestamp
                (AList.update ''id'' (VStr (doc_id r)) data)) None]\<rparr>)"
  using assms getDocRef_Inl_world[OF assms]
  by (simp add: Fire_setDoc_def setDoc_def await_eq Fire_serverTs_def serverTimestamp_def split: sum.splits)

lemma Fire_mergeDoc_eq:
  assumes "getDocRef sdk (Inl p) w = (Inr r, w1)"
  shows "Fire_mergeDoc this sdk p data w =
     (map_sum id (\<lambda>u. r)
        (fst (setDoc_fn sdk r (AList.update ''updatedAt'' VServerTimestamp
                (AList.update ''id'' (VStr (doc_id r)) data)) (Some (SetOptions True)) (backend w))),
      w\<lparr>backend := snd (setDoc_fn sdk r (AList.update ''updatedAt'' VServerTimestamp
                (AList.update ''id'' (VStr (doc_id r)) data)) (Some (SetOptions True)) (backend w)),
         calls := calls w @ [SetDoc r (AList.update ''updatedAt'' VServerTimestamp
                (AList.update ''id'' (VStr (doc_id r)) data)) (Some (SetOptions True))]\<rparr>)"
  using assms getDocRef_Inl_world[OF assms]
  by (simp add: Fire_mergeDoc_def setDoc_def await_eq Fire_serverTs_def serverTimestamp_def split: sum.splits)

lemma Fire_updateDoc_eq:
  assumes "getDocRef sdk (Inl p) w = (Inr r, w1)"
  shows "Fire_updateDoc this sdk p data w =
     (map_sum id (\<lambda>u. r)
        (fst (updateDoc_fn sdk r (AList.update ''updatedAt'' VServerTimestamp
                (AList.update ''id'' (VStr (doc_id r)) data)) (backend w))),
      w\<lparr>backend := snd (updateDoc_fn sdk r (AList.update ''updatedAt'' VServerTimestamp
                (AList.update ''id'' (VStr (doc_id r)) data)) (backend w)),
         calls := calls w @ [UpdateDoc r (AList.update ''updatedAt'' VServerTimestamp
                (AList.update ''id'' (VStr (doc_id r)) data))]\<rparr>)"
  using assms getDocRef_Inl_world[OF assms]
  by (simp add: Fire_updateDoc_def updateDoc_def await_eq Fire_serverTs_def serverTimestamp_def split: sum.splits)

lemma Fire_deleteDoc_eq:
  assumes "getDocRef sdk (Inl p) w = (Inr r, w1)"
  shows "Fire_deleteDoc this sdk p w =
     (fst (deleteDoc_fn sdk r (backend w)),
      w\<lparr>backend := snd (deleteDoc_fn sdk r (backend w)), calls := calls w @ [DeleteDoc r]\<rparr>)"
  using assms getDocRef_Inl_world[OF assms]
  by (simp add: Fire_deleteDoc_def deleteDoc_def await_eq)

lemma Fire_getDoc_eq:
  assumes "getDocRef sdk (Inl p) w = (Inr r, w1)"
  shows "Fire_getDoc this sdk p converter w =
     (map_sum id (map_option (\<lambda>q. fromFirestore converter q None)) (fst (getDoc_fn sdk r (backend w))),
      w\<lparr>backend := snd (getDoc_fn sdk r (backend w)), calls := calls w @ [GetDoc r]\<rparr>)"
  using assms getDocRef_Inl_world[OF assms]
  by (cases "fst (getDoc_fn sdk r (backend w))")
     (auto simp: Fire_getDoc_def getDoc_def await_eq split: option.splits)

lemma payload_has_ref_id:
  "has_ref_id r (AList.update ''createdAt'' VServerTimestamp (AList.update ''id'' (VStr (doc_id r)) data))"
  "has_ref_id r (AList.update ''updatedAt'' VServerTimestamp (AList.update ''id'' (VStr (doc_id r)) data))"
  by (simp_all add: has_ref_id_def update_conv')

lemma payload_stamps:
  "stamps_created data (AList.update ''createdAt'' VServerTimestamp (AList.update ''id'' v data))"
  "stamps_updated data (AList.update ''updatedAt'' VServerTimestamp (AList.update ''id'' v data))"
  by (simp_all add: stamps_created_def stamps_updated_def update_conv')

lemma FireBatch_add_queued:
  assumes "FireBatch_add sdk c data fb w = (Inr docId, fb', w')"
  shows "\<exists>col r. getColRef sdk c w = Inr col \<and> doc_auto sdk col w = (r, w') \<and> docId = doc_id r \<and>
           queued fb' = queued fb @ [WSet r (AList.update ''createdAt'' VServerTimestamp
                                         (AList.update ''id'' (VStr (doc_id r)) data)) None]"
  using FireBatch_add_cases[OF assms] curBatch_write_queued
  by (fastforce simp: serverTimestamp_def)

lemma FireBatch_set_queued:
  assumes "FireBatch_set sdk p data fb w = (Inr u, fb', w')"
  shows "\<exists>r. getDocRef sdk (Inl p) w = (Inr r, w') \<and>
           queued fb' = queued fb @ [WSet r (AList.update ''createdAt'' VServerTimestamp
                                         (AList.update ''id'' (VStr (doc_id r)) data)) None]"
  using FireBatch_set_cases[OF assms] curBatch_write_queued
  by (fastforce simp: serverTimestamp_def)

lemma FireBatch_merge_queued:
  assumes "FireBatch_merge sdk p data fb w = (Inr u, fb', w')"
  shows "\<exists>r. getDocRef sdk (Inl p) w = (Inr r, w') \<and>
           queued fb' = queued fb @ [WSet r (AList.update ''updatedAt'' VServerTimestamp
                                         (AList.update ''id'' (VStr (doc_id r)) data))
                                       (Some (SetOptions True))]"
  using FireBatch_merge_cases[OF assms] curBatch_write_queued
  by (fastforce simp: serverTimestamp_def)

lemma FireBatch_update_queued:
  assumes "FireBatch_update sdk p data fb w = (Inr u, fb', w')"
  shows "\<exists>r. getDocRef sdk (Inl p) w = (Inr r, w') \<and>
           queued fb' = queued fb @ [WUpdate r (AList.update ''updatedAt'' VServerTimestamp
                                         (AList.update ''id'' (VStr (doc_id r)) data))]"
  using FireBatch_update_cases[OF assms] curBatch_write_queued
  by (fastforce simp: serverTimestamp_def)

text \<open>
  Claim C2. Every write that stores document data (\<open>Fire.addDoc\<close>, \<open>setDoc\<close>, \<open>mergeDoc\<close>,
  \<open>updateDoc\<close> and \<open>FireBatch.add\<close>, \<open>set\<close>, \<open>merge\<close>, \<open>update\<close>) hands the SDK a payload whose
  \<open>id\<close> is the id of the reference written to, whatever \<open>id\<close> the caller's data has or lacks.
  For \<open>Fire\<close> the payload is the one of the request sent; for \<open>FireBatch\<close> it is the one of
  the write queued.
\<close>

theorem written_payload_has_reference_id:
  "(getColRef sdk c w = Inr col \<and> doc_auto sdk col w = (r, wn) \<longrightarrow>
      (\<exists>payload. calls (snd (Fire_addDoc this sdk c data w)) = calls w @ [SetDoc r payload None] \<and>
                  has_ref_id r payload)) \<and>
   (getDocRef sdk (Inl p) w = (Inr r', wq) \<longrightarrow>
      (\<exists>payload. calls (snd (Fire_setDoc this sdk p data w)) = calls w @ [SetDoc r' payload None] \<and>
                  has_ref_id r' payload) \<and>
      (\<exists>payload. calls (snd (Fire_mergeDoc this sdk p data w)) =
                    calls w @ [SetDoc r' payload (Some (SetOptions True))] \<and>
                  has_ref_id r' payload) \<and>
      (\<exists>payload. calls (snd (Fire_updateDoc this sdk p data w)) = calls w @ [UpdateDoc r' payload] \<and>
                  has_ref_id r' payload)) \<and>
   (FireBatch_add sdk c data fb w = (Inr docId, fba, wa) \<longrightarrow>
      (\<exists>col r payload. getColRef sdk c w = Inr col \<and> doc_auto sdk col w = (r, wa) \<and>
         docId = doc_id r \<and> queued fba = queued fb @ [WSet r payload None] \<and> has_ref_id r payload)) \<and>
   (FireBatch_set sdk p data fb w = (Inr u, fbs, ws) \<longrightarrow>
      (\<exists>r payload. getDocRef sdk (Inl p) w = (Inr r, ws) \<and>
         queued fbs = queued fb @ [WSet r payload None] \<and> has_ref_id r payload)) \<and>
   (FireBatch_merge sdk p data fb w = (Inr u, fbm, wm) \<longrightarrow>
      (\<exists>r payload. getDocRef sdk (Inl p) w = (Inr r, wm) \<and>
         queued fbm = queued fb @ [WSet r payload (Some (SetOptions True))] \<and> has_ref_id r payload)) \<and>
   (FireBatch_update sdk p data fb w = (Inr u, fbu, wu) \<longrightarrow>
      (\<exists>r payload. getDocRef sdk (Inl p) w = (Inr r, wu) \<and>
         queued fbu = queued fb @ [WUpdate r payload] \<and> has_ref_id r payload))"
proof (intro conjI impI)
  assume "getColRef sdk c w = Inr col \<and> doc_auto sdk col w = (r, wn)"
  then show "\<exists>payload. calls (snd (Fire_addDoc this sdk c data w)) = calls w @ [SetDoc r payload None] \<and>
                  has_ref_id r payload"
    using payload_has_ref_id(1) by (fastforce simp: Fire_addDoc_eq)
next
  assume a: "getDocRef sdk (Inl p) w = (Inr r', wq)"
  show "\<exists>payload. calls (snd (Fire_setDoc this sdk p data w)) = calls w @ [SetDoc r' payload None] \<and>
                  has_ref_id r' payload"
    using payload_has_ref_id(1) by (fastforce simp: Fire_setDoc_eq[OF a])
  show "\<exists>payload. calls (snd (Fire_mergeDoc this sdk p data w)) =
                    calls w @ [SetDoc r' payload (Some (SetOptions True))] \<and>
                  has_ref_id r' payload"
    using payload_has_ref_id(2) by (fastforce simp: Fire_mergeDoc_eq[OF a])
  show "\<exists>payload. calls (snd (Fire_updateDoc this sdk p data w)) = calls w @ [UpdateDoc r' payload] \<and>
                  has_ref_id r' payload"
    using payload_has_ref_id(2) by (fastforce simp: Fire_updateDoc_eq[OF a])
next
  assume "FireBatch_add sdk c data fb w = (Inr docId, fba, wa)"
  from FireBatch_add_queued[OF this] payload_has_ref_id(1)
  show "\<exists>col r payload. getColRef sdk c w = Inr col \<and> doc_auto sdk col w = (r, wa) \<and>
         docId = doc_id r \<and> queued fba = queued fb @ [WSet r payload None] \<and> has_ref_id r payload"
    by blast
next
  assume "FireBatch_set sdk p data fb w = (Inr u, fbs, ws)"
  from FireBatch_set_queued[OF this] payload_has_ref_id(1)
  show "\<exists>r payload. getDocRef sdk (Inl p) w = (Inr r, ws) \<and>
         queued fbs = queued fb @ [WSet r payload None] \<and> has_ref_id r payload"
    by blast
next
  assume "FireBatch_merge sdk p data fb w = (Inr u, fbm, wm)"
  from FireBatch_merge_queued[OF this] payload_has_ref_id(2)
  show "\<exists>r payload. getDocRef sdk (Inl p) w = (Inr r, wm) \<and>
         queued fbm = queued fb @ [WSet r payload (Some (SetOptions True))] \<and> has_ref_id r payload"
    by blast
next
  assume "FireBatch_update sdk p data fb w = (Inr u, fbu, wu)"
  from FireBatch_update_queued[OF this] payload_has_ref_id(2)
  show "\<exists>r payload. getDocRef sdk (Inl p) w = (Inr r, wu) \<and>
         queued fbu = queued fb @ [WUpdate r payload] \<and> has_ref_id r payload"
    by blast
qed

text \<open>
  Claim C3. \<open>addDoc\<close>, \<open>setDoc\<close>, \<open>add\<close> and \<open>set\<close> put the server timestamp under \<open>createdAt\<close>
  and leave \<open>updatedAt\<close> as in the caller's data; \<open>mergeDoc\<close>, \<open>updateDoc\<close>, \<open>merge\<close> and
  \<open>update\<close> put it under \<open>updatedAt\<close> and leave \<open>createdAt\<close> as in the caller's data. No
  write attaches both.
\<close>

theorem write_attaches_one_timestamp:
  "(getColRef sdk c w = Inr col \<and> doc_auto sdk col w = (r, wn) \<longrightarrow>
      (\<exists>payload. calls (snd (Fire_addDoc this sdk c data w)) = calls w @ [SetDoc r payload None] \<and>
                  stamps_created data payload)) \<and>
   (getDocRef sdk (Inl p) w = (Inr r', wq) \<longrightarrow>
      (\<exists>payload. calls (snd (Fire_setDoc this sdk p data w)) = calls w @ [SetDoc r' payload None] \<and>
                  stamps_created data payload) \<and>
      (\<exists>payload. calls (snd (Fire_mergeDoc this sdk p data w)) =
                    calls w @ [SetDoc r' payload (Some (SetOptions True))] \<and>
                  stamps_updated data payload) \<and>
      (\<exists>payload. calls (snd (Fire_updateDoc this sdk p data w)) = calls w @ [UpdateDoc r' payload] \<and>
                  stamps_updated data payload)) \<and>
   (FireBatch_add sdk c data fb w = (Inr docId, fba, wa) \<longrightarrow>
      (\<exists>col r payload. getColRef sdk c w = Inr col \<and> doc_auto sdk col w = (r, wa) \<and>
         docId = doc_id r \<and> queued fba = queued fb @ [WSet r payload None] \<and> stamps_created data payload)) \<and>
   (FireBatch_set sdk p data fb w = (Inr u, fbs, ws) \<longrightarrow>
      (\<exists>r payload. getDocRef sdk (Inl p) w = (Inr r, ws) \<and>
         queued fbs = queued fb @ [WSet r payload None] \<and> stamps_created data payload)) \<and>
   (FireBatch_merge sdk p data fb w = (Inr u, fbm, wm) \<longrightarrow>
      (\<exists>r payload. getDocRef sdk (Inl p) w = (Inr r, wm) \<and>
         queued fbm = queued fb @ [WSet r payload (Some (SetOptions True))] \<and> stamps_updated data payload)) \<and>
   (FireBatch_update sdk p data fb w = (Inr u, fbu, wu) \<longrightarrow>
      (\<exists>r payload. getDocRef sdk (Inl p) w = (Inr r, wu) \<and>
         queued fbu = queued fb @ [WUpdate r payload] \<and> stamps_updated data payload))"
proof (intro conjI impI)
  assume "getColRef sdk c w = Inr col \<and> doc_auto sdk col w = (r, wn)"
  then show "\<exists>payload. calls (snd (Fire_addDoc this sdk c data w)) = calls w @ [SetDoc r payload None] \<and>
                  stamps_created data payload"
    using payload_stamps(1) by (fastforce simp: Fire_addDoc_eq)
next
  assume a: "getDocRef sdk (Inl p) w = (Inr r', wq)"
  show "\<exists>payload. calls (snd (Fire_setDoc this sdk p data w)) = calls w @ [SetDoc r' payload None] \<and>
                  stamps_created data payload"
    using payload_stamps(1) by (fastforce simp: Fire_setDoc_eq[OF a])
  show "\<exists>payload. calls (snd (Fire_mergeDoc this sdk p data w)) =
                    calls w @ [SetDoc r' payload (Some (SetOptions True))] \<and>
                  stamps_updated data payload"
    using payload_stamps(2) by (fastforce simp: Fire_mergeDoc_eq[OF a])
  show "\<exists>payload. calls (snd (Fire_updateDoc this sdk p data w)) = calls w @ [UpdateDoc r' payload] \<and>
                  stamps_updated data payload"
    using payload_stamps(2) by (fastforce simp: Fire_updateDoc_eq[OF a])
next
  assume "FireBatch_add sdk c data fb w = (Inr docId, fba, wa)"
  from FireBatch_add_queued[OF this] payload_stamps(1)
  show "\<exists>col r payload. getColRef sdk c w = Inr col \<and> doc_auto sdk col w = (r, wa) \<and>
         docId = doc_id r \<and> queued fba = queued fb @ [WSet r payload None] \<and> stamps_created data payload"
    by blast
next
  assume "FireBatch_set sdk p data fb w = (Inr u, fbs, ws)"
  from FireBatch_set_queued[OF this] payload_stamps(1)
  show "\<exists>r payload. getDocRef sdk (Inl p) w = (Inr r, ws) \<and>
         queued fbs = queued fb @ [WSet r payload None] \<and> stamps_created data payload"
    by blast
next
  assume "FireBatch_merge sdk p data fb w = (Inr u, fbm, wm)"
  from FireBatch_merge_queued[OF this] payload_stamps(2)
  show "\<exists>r payload. getDocRef sdk (Inl p) w = (Inr r, wm) \<and>
         queued fbm = queued fb @ [WSet r payload (Some (SetOptions True))] \<and> stamps_updated data payload"
    by blast
next
  assume "FireBatch_update sdk p data fb w = (Inr u, fbu, wu)"
  from FireBatch_update_queued[OF this] payload_stamps(2)
  show "\<exists>r payload. getDocRef sdk (Inl p) w = (Inr r, wu) \<and>
         queued fbu = queued fb @ [WUpdate r payload] \<and> stamps_updated data payload"
    by blast
qed

text \<open>
  Claim C4. \<open>getColRef\<close> and \<open>getDocRef\<close> give for a list of segments what they give for the
  segments joined with a slash; they return a reference of their own kind as it is; and
  applying either to its own result changes nothing. \<open>Fire.colRef\<close> and \<open>Fire.docRef\<close> are
  the two helpers.
\<close>

theorem reference_helpers_normal_form:
  "getColRef sdk (ColSegments p) w = getColRef sdk (ColPath (join ''/'' p)) w \<and>
   getDocRef sdk (Inl (DocSegments p)) w = getDocRef sdk (Inl (DocPath (join ''/'' p))) w \<and>
   getColRef sdk (ColRef c) w = Inr c \<and>
   getDocRef sdk (Inl (DocRef d)) w = (Inr d, w) \<and>
   (case getColRef sdk x w of Inl e \<Rightarrow> Inl e | Inr c' \<Rightarrow> getColRef sdk (ColRef c') w') =
     getColRef sdk x w \<and>
   (case getDocRef sdk y w of
      (Inl e, w1) \<Rightarrow> (Inl e, w1)
    | (Inr d', w1) \<Rightarrow> getDocRef sdk (Inl (DocRef d')) w1) = getDocRef sdk y w \<and>
   Fire_colRef this sdk x w = getColRef sdk x w \<and>
   Fire_docRef this sdk y w = getDocRef sdk y w"
proof -
  have idem_col: "(case getColRef sdk x w of Inl e \<Rightarrow> Inl e | Inr c' \<Rightarrow> getColRef sdk (ColRef c') w') =
     getColRef sdk x w"
    by (cases "getColRef sdk x w") simp_all
  have idem_doc: "(case getDocRef sdk y w of
      (Inl e, w1) \<Rightarrow> (Inl e, w1)
    | (Inr d', w1) \<Rightarrow> getDocRef sdk (Inl (DocRef d')) w1) = getDocRef sdk y w"
    by (cases "getDocRef sdk y w") (auto split: sum.splits)
  show ?thesis
    using idem_col idem_doc by (simp add: Fire_colRef_def Fire_docRef_def)
qed

text \<open>
  Claim C7. No method or getter of \<open>Fire\<close> depends on the instance it is called on: over
  the same state of the SDK, two instances give the same result and the same effect.
\<close>

theorem Fire_instances_interchangeable:
  "Fire_auth f1 sdk w = Fire_auth f2 sdk w \<and>
   Fire_user f1 sdk w = Fire_user f2 sdk w \<and>
   Fire_uid f1 sdk w = Fire_uid f2 sdk w \<and>
   Fire_db f1 sdk w = Fire_db f2 sdk w \<and>
   Fire_signIn f1 sdk e pw w = Fire_signIn f2 sdk e pw w \<and>
   Fire_signOut f1 sdk w = Fire_signOut f2 sdk w \<and>
   Fire_serverTs f1 = Fire_serverTs f2 \<and>
   Fire_inc f1 n = Fire_inc f2 n \<and>
   Fire_colRef f1 sdk c w = Fire_colRef f2 sdk c w \<and>
   Fire_docRef f1 sdk y w = Fire_docRef f2 sdk y w \<and>
   Fire_getDoc f1 sdk p conv w = Fire_getDoc f2 sdk p conv w \<and>
   Fire_addDoc f1 sdk c data w = Fire_addDoc f2 sdk c data w \<and>
   Fire_setDoc f1 sdk p data w = Fire_setDoc f2 sdk p data w \<and>
   Fire_mergeDoc f1 sdk p data w = Fire_mergeDoc f2 sdk p data w \<and>
   Fire_updateDoc f1 sdk p data w = Fire_updateDoc f2 sdk p data w \<and>
   Fire_deleteDoc f1 sdk p w = Fire_deleteDoc f2 sdk p w"
  unfolding Fire_auth_def Fire_user_def Fire_serverTs_def Fire_uid_def Fire_db_def
    Fire_signIn_def Fire_signOut_def Fire_inc_def Fire_colRef_def Fire_docRef_def
    Fire_getDoc_def Fire_addDoc_def Fire_setDoc_def Fire_mergeDoc_def Fire_updateDoc_def
    Fire_deleteDoc_def
  by simp

text \<open>
  Claim C6, as amended. When the reference normalizes, each of \<open>getDoc\<close>, \<open>addDoc\<close>,
  \<open>setDoc\<close>, \<open>mergeDoc\<close>, \<open>updateDoc\<close> and \<open>deleteDoc\<close> makes exactly one asynchronous
  call, the corresponding one of the SDK on the normalized reference with the enriched
  payload, whether or not that call is rejected; the state afterwards and the result
  are those of that one call. When normalizing the reference throws, the operation
  fails with that error, makes no call and leaves the state as it was.
\<close>

theorem Fire_crud_single_backend_call:
  "(getDocRef sdk (Inl p) w = (Inr r, wn) \<longrightarrow>
      calls (snd (Fire_getDoc this sdk p conv w)) = calls w @ [GetDoc r] \<and>
      backend (snd (Fire_getDoc this sdk p conv w)) = snd (getDoc_fn sdk r (backend w)) \<and>
      fst (Fire_getDoc this sdk p conv w) =
        map_sum id (map_option (\<lambda>q. fromFirestore conv q None)) (fst (getDoc_fn sdk r (backend w))) \<and>
      calls (snd (Fire_setDoc this sdk p data w)) =
        calls w @ [SetDoc r (enriched ''createdAt'' r data) None] \<and>
      backend (snd (Fire_setDoc this sdk p data w)) =
        snd (setDoc_fn sdk r (enriched ''createdAt'' r data) None (backend w)) \<and>
      fst (Fire_setDoc this sdk p data w) =
        map_sum id (\<lambda>u. r) (fst (setDoc_fn sdk r (enriched ''createdAt'' r data) None (backend w))) \<and>
      calls (snd (Fire_mergeDoc this sdk p data w)) =
        calls w @ [SetDoc r (enriched ''updatedAt'' r data) (Some (SetOptions True))] \<and>
      backend (snd (Fire_mergeDoc this sdk p data w)) =
        snd (setDoc_fn sdk r (enriched ''updatedAt'' r data) (Some (SetOptions True)) (backend w)) \<and>
      fst (Fire_mergeDoc this sdk p data w) =
        map_sum id (\<lambda>u. r)
          (fst (setDoc_fn sdk r (enriched ''updatedAt'' r data) (Some (SetOptions True)) (backend w))) \<and>
      calls (snd (Fire_updateDoc this sdk p data w)) =
        calls w @ [UpdateDoc r (enriched ''updatedAt'' r data)] \<and>
      backend (snd (Fire_updateDoc this sdk p data w)) =
        snd (updateDoc_fn sdk r (enriched ''updatedAt'' r data) (backend w)) \<and>
      fst (Fire_updateDoc this sdk p data w) =
        map_sum id (\<lambda>u. r) (fst (updateDoc_fn sdk r (enriched ''updatedAt'' r data) (backend w))) \<and>
      calls (snd (Fire_deleteDoc this sdk p w)) = calls w @ [DeleteDoc r] \<and>
      backend (snd (Fire_deleteDoc this sdk p w)) = snd (deleteDoc_fn sdk r (backend w)) \<and>
      fst (Fire_deleteDoc this sdk p w) = fst (deleteDoc_fn sdk r (backend w))) \<and>
   (getColRef sdk c w = Inr col \<and> doc_auto sdk col w = (r', wc) \<longrightarrow>
      calls (snd (Fire_addDoc this sdk c data w)) =
        calls w @ [SetDoc r' (enriched ''createdAt'' r' data) None] \<and>
      backend (snd (Fire_addDoc this sdk c data w)) =
        snd (setDoc_fn sdk r' (enriched ''createdAt'' r' data) None (backend wc)) \<and>
      fst (Fire_addDoc this sdk c data w) =
        map_sum id (\<lambda>u. r') (fst (setDoc_fn sdk r' (enriched ''createdAt'' r' data) None (backend wc)))) \<and>
   (getDocRef sdk (Inl q) w = (Inl e, wx) \<longrightarrow>
      Fire_getDoc this sdk q conv w = (Inl e, w) \<and>
      Fire_setDoc this sdk q data w = (Inl e, w) \<and>
      Fire_mergeDoc this sdk q data w = (Inl e, w) \<and>
      Fire_updateDoc this sdk q data w = (Inl e, w) \<and>
      Fire_deleteDoc this sdk q w = (Inl e, w)) \<and>
   (getColRef sdk d w = Inl e' \<longrightarrow> Fire_addDoc this sdk d data w = (Inl e', w))"
proof (intro conjI impI)
  assume a: "getDocRef sdk (Inl p) w = (Inr r, wn)"
  show "calls (snd (Fire_getDoc this sdk p conv w)) = calls w @ [GetDoc r]"
    and "backend (snd (Fire_getDoc this sdk p conv w)) = snd (getDoc_fn sdk r (backend w))"
    and "fst (Fire_getDoc this sdk p conv w) =
        map_sum id (map_option (\<lambda>q. fromFirestore conv q None)) (fst (getDoc_fn sdk r (backend w)))"
    by (simp_all add: Fire_getDoc_eq[OF a])
  show "calls (snd (Fire_setDoc this sdk p data w)) =
        calls w @ [SetDoc r (enriched ''createdAt'' r data) None]"
    and "backend (snd (Fire_setDoc this sdk p data w)) =
        snd (setDoc_fn sdk r (enriched ''createdAt'' r data) None (backend w))"
    and "fst (Fire_setDoc this sdk p data w) =
        map_sum id (\<lambda>u. r) (fst (setDoc_fn sdk r (enriched ''createdAt'' r data) None (backend w)))"
    by (simp_all add: Fire_setDoc_eq[OF a] enriched_def)
  show "calls (snd (Fire_mergeDoc this sdk p data w)) =
        calls w @ [SetDoc r (enriched ''updatedAt'' r data) (Some (SetOptions True))]"
    and "backend (snd (Fire_mergeDoc this sdk p data w)) =
        snd (setDoc_fn sdk r (enriched ''updatedAt'' r data) (Some (SetOptions True)) (backend w))"
    and "fst (Fire_mergeDoc this sdk p data w) =
        map_sum id (\<lambda>u. r)
          (fst (setDoc_fn sdk r (enriched ''updatedAt'' r data) (Some (SetOptions True)) (backend w)))"
    by (simp_all add: Fire_mergeDoc_eq[OF a] enriched_def)
  show "calls (snd (Fire_updateDoc this sdk p data w)) =
        calls w @ [UpdateDoc r (enriched ''updatedAt'' r data)]"
    and "backend (snd (Fire_updateDoc this sdk p data w)) =
        snd (updateDoc_fn sdk r (enriched ''updatedAt'' r data) (backend w))"
    and "fst (Fire_updateDoc this sdk p data w) =
        map_sum id (\<lambda>u. r) (fst (updateDoc_fn sdk r (enriched ''updatedAt'' r data) (backend w)))"
    by (simp_all add: Fire_updateDoc_eq[OF a] enriched_def)
  show "calls (snd (Fire_deleteDoc this sdk p w)) = calls w @ [DeleteDoc r]"
    and "backend (snd (Fire_deleteDoc this sdk p w)) = snd (deleteDoc_fn sdk r (backend w))"
    and "fst (Fire_deleteDoc this sdk p w) = fst (deleteDoc_fn sdk r (backend w))"
    by (simp_all add: Fire_deleteDoc_eq[OF a])
next
  assume b: "getColRef sdk c w = Inr col \<and> doc_auto sdk col w = (r', wc)"
  then have b1: "getColRef sdk c w = Inr col" and b2: "doc_auto sdk col w = (r', wc)" by simp_all
  show "calls (snd (Fire_addDoc this sdk c data w)) =
        calls w @ [SetDoc r' (enriched ''createdAt'' r' data) None]"
    and "backend (snd (Fire_addDoc this sdk c data w)) =
        snd (setDoc_fn sdk r' (enriched ''createdAt'' r' data) None (backend wc))"
    and "fst (Fire_addDoc this sdk c data w) =
        map_sum id (\<lambda>u. r') (fst (setDoc_fn sdk r' (enriched ''createdAt'' r' data) None (backend wc)))"
    by (simp_all add: Fire_addDoc_eq[OF b1 b2] enriched_def)
next
  assume f: "getDocRef sdk (Inl q) w = (Inl e, wx)"
  from getDocRef_Inl_world[OF f] f have g: "getDocRef sdk (Inl q) w = (Inl e, w)" by simp
  show "Fire_getDoc this sdk q conv w = (Inl e, w)"
    and "Fire_setDoc this sdk q data w = (Inl e, w)"
    and "Fire_mergeDoc this sdk q data w = (Inl e, w)"
    and "Fire_updateDoc this sdk q data w = (Inl e, w)"
    and "Fire_deleteDoc this sdk q w = (Inl e, w)"
    by (simp_all add: g Fire_getDoc_def Fire_setDoc_def Fire_mergeDoc_def Fire_updateDoc_def
        Fire_deleteDoc_def)
next
  assume "getColRef sdk d w = Inl e'"
  then show "Fire_addDoc this sdk d data w = (Inl e', w)"
    by (simp add: Fire_addDoc_def)
qed

lemma convert_timestamps_map_of:
  "map_of (convert_timestamps sdk keys data) k =
     (if k \<in> set keys then map_option (converted sdk) (map_of data k) else map_of data k)"
proof (induction keys arbitrary: data)
  case Nil
  then show ?case by simp
next
  case (Cons key keys)
  have idem: "converted sdk (converted sdk v) = converted sdk v" for v
    by (cases v) simp_all
  show ?case
  proof (cases "get_prop data key")
    case (VTimestamp t)
    then have m: "map_of data key = Some (VTimestamp t)"
      by (auto simp: get_prop_def split: option.splits)
    show ?thesis
      using VTimestamp m by (auto simp: Cons.IH update_conv')
  qed (auto simp: Cons.IH get_prop_def option.map_comp comp_def split: option.splits
        intro!: option.map_cong0 dest: sym)
qed

lemma converted_data:
  "map_of (convert_timestamps sdk (map fst d) d) k = map_option (converted sdk) (map_of d k)"
proof (cases "k \<in> set (map fst d)")
  case True
  then show ?thesis by (simp add: convert_timestamps_map_of)
next
  case False
  then have "map_of d k = None" by (simp add: map_of_eq_None_iff)
  with False show ?thesis by (simp add: convert_timestamps_map_of)
qed

lemma map_of_filter_three:
  "map_of (filter (\<lambda>kv. fst kv \<noteq> a \<and> fst kv \<noteq> b \<and> fst kv \<noteq> c) xs) k =
     (if k = a \<or> k = b \<or> k = c then None else map_of xs k)"
  by (induction xs) auto

lemma id_default:
  "(case v of VUndefined \<Rightarrow> VStr [] | x \<Rightarrow> x) = (if v = VUndefined then VStr [] else v)"
  by (cases v) simp_all

lemma getFireData_map_of:
  "map_of (getFireData sdk snapshot options) k =
     (if k = ''id'' then
        Some (case map_of (snapshot_data snapshot options) ''id'' of
                None \<Rightarrow> VStr []
              | Some v \<Rightarrow> if converted sdk v = VUndefined then VStr [] else converted sdk v)
      else if k = ''createdAt'' \<or> k = ''updatedAt'' then
        Some (case map_of (snapshot_data snapshot options) k of
                None \<Rightarrow> VUndefined | Some v \<Rightarrow> converted sdk v)
      else map_option (converted sdk) (map_of (snapshot_data snapshot options) k))"
  by (auto simp: getFireData_def Let_def id_default map_of_filter_three converted_data get_prop_def
      split: option.splits)

text \<open>
  Claim C10, as amended. The converter of \<open>createDataConverter\<close> hands the user's function
  the result of \<open>getFireData\<close>, in which every top-level field stored as a Timestamp is
  a Date, every other stored field is unchanged, no field is added apart from \<open>id\<close>,
  \<open>createdAt\<close> and \<open>updatedAt\<close>, and \<open>id\<close> is always present: the empty string when the
  stored document has none, and the stored string when it has one.
\<close>

theorem getFireData_converts_top_level_timestamps:
  "fromFirestore (createDataConverter sdk as_data f) snapshot options =
     f (getFireData sdk snapshot options) \<and>
   (\<forall>k t. map_of (snapshot_data snapshot options) k = Some (VTimestamp t) \<longrightarrow>
      map_of (getFireData sdk snapshot options) k = Some (VDate (toDate_fn sdk t))) \<and>
   (\<forall>k v. map_of (snapshot_data snapshot options) k = Some v \<and> (\<forall>t. v \<noteq> VTimestamp t) \<and>
          (k = ''id'' \<longrightarrow> v \<noteq> VUndefined) \<longrightarrow>
      map_of (getFireData sdk snapshot options) k = Some v) \<and>
   (\<forall>k. map_of (snapshot_data snapshot options) k = None \<and>
        k \<noteq> ''id'' \<and> k \<noteq> ''createdAt'' \<and> k \<noteq> ''updatedAt'' \<longrightarrow>
      map_of (getFireData sdk snapshot options) k = None) \<and>
   map_of (getFireData sdk snapshot options) ''id'' \<noteq> None \<and>
   (map_of (snapshot_data snapshot options) ''id'' = None \<longrightarrow>
      map_of (getFireData sdk snapshot options) ''id'' = Some (VStr [])) \<and>
   (\<forall>s. map_of (snapshot_data snapshot options) ''id'' = Some (VStr s) \<longrightarrow>
      map_of (getFireData sdk snapshot options) ''id'' = Some (VStr s))"
proof (intro conjI allI impI)
  show "fromFirestore (createDataConverter sdk as_data f) snapshot options =
     f (getFireData sdk snapshot options)"
    by (simp add: createDataConverter_def)
next
  fix k t
  assume "map_of (snapshot_data snapshot options) k = Some (VTimestamp t)"
  then show "map_of (getFireData sdk snapshot options) k = Some (VDate (toDate_fn sdk t))"
    by (auto simp: getFireData_map_of)
next
  fix k v
  assume a: "map_of (snapshot_data snapshot options) k = Some v \<and> (\<forall>t. v \<noteq> VTimestamp t) \<and>
          (k = ''id'' \<longrightarrow> v \<noteq> VUndefined)"
  then have "converted sdk v = v" by (cases v) simp_all
  with a show "map_of (getFireData sdk snapshot options) k = Some v"
    by (auto simp: getFireData_map_of)
next
  fix k
  assume "map_of (snapshot_data snapshot options) k = None \<and>
        k \<noteq> ''id'' \<and> k \<noteq> ''createdAt'' \<and> k \<noteq> ''updatedAt''"
  then show "map_of (getFireData sdk snapshot options) k = None"
    by (auto simp: getFireData_map_of)
next
  show "map_of (getFireData sdk snapshot options) ''id'' \<noteq> None"
    by (auto simp: getFireData_map_of)
next
  assume "map_of (snapshot_data snapshot options) ''id'' = None"
  then show "map_of (getFireData sdk snapshot options) ''id'' = Some (VStr [])"
    by (auto simp: getFireData_map_of)
next
  fix s
  assume "map_of (snapshot_data snapshot options) ''id'' = Some (VStr s)"
  then show "map_of (getFireData sdk snapshot options) ''id'' = Some (VStr s)"
    by (auto simp: getFireData_map_of)
qed

text \<open>
  Claim C10 as stated fails for a stored document whose \<open>id\<close> is a number: the \<open>id\<close>
  handed to the user's function is that number, not a string.
\<close>

theorem getFireData_id_not_string_counterexample:
  "get_prop (getFireData mem_sdk stored_numbered None) ''id'' = VNum 42"
  by (simp add: getFireData_def stored_numbered_def get_prop_def Let_def)

text \<open>The theorem above at concrete inputs of the in-memory SDK.\<close>

theorem getFireData_converts_top_level_timestamps_witness:
  "map_of (getFireData mem_sdk stored_order None) ''createdAt'' = Some (VDate (JsDate 1700000000500)) \<and>
   map_of (getFireData mem_sdk stored_order None) ''orderType'' = Some (VStr ''dineIn'') \<and>
   map_of (getFireData mem_sdk stored_order None) ''total'' = None \<and>
   map_of (getFireData mem_sdk stored_order None) ''id'' = Some (VStr []) \<and>
   map_of (getFireData mem_sdk stored_numbered None) ''id'' = Some (VNum 42)"
proof -
  have d: "snapshot_data stored_order None =
      [(''orderType'', VStr ''dineIn''), (''createdAt'', VTimestamp (Timestamp 1700000000 500000000))]"
    by (simp add: stored_order_def)
  have n: "snapshot_data stored_numbered None = [(''id'', VNum 42), (''orderType'', VStr ''dineIn'')]"
    by (simp add: stored_numbered_def)
  have date: "toDate_fn mem_sdk (Timestamp 1700000000 500000000) = JsDate 1700000000500"
    by (simp add: mem_sdk_def)
  note T = getFireData_converts_top_level_timestamps[of mem_sdk id id stored_order None]
  note N = getFireData_converts_top_level_timestamps[of mem_sdk id id stored_numbered None]
  have 1: "map_of (getFireData mem_sdk stored_order None) ''createdAt'' =
      Some (VDate (toDate_fn mem_sdk (Timestamp 1700000000 500000000)))"
    using T by (simp add: d)
  have 2: "map_of (getFireData mem_sdk stored_order None) ''orderType'' = Some (VStr ''dineIn'')"
    using T d by force
  have 3: "map_of (getFireData mem_sdk stored_order None) ''total'' = None"
    using T by (simp add: d)
  have 4: "map_of (getFireData mem_sdk stored_order None) ''id'' = Some (VStr [])"
    using T by (simp add: d)
  have 5: "map_of (getFireData mem_sdk stored_numbered None) ''id'' = Some (VNum 42)"
    using N n by force
  from 1 2 3 4 5 date show ?thesis by simp
qed

text \<open>The theorem above at concrete inputs of the in-memory SDK.\<close>

theorem written_payload_has_reference_id_witness:
  "(\<exists>payload. calls (snd (Fire_addDoc (Fire 0) mem_sdk (ColPath ''orders'') sample_data mem_world)) =
       calls mem_world @ [SetDoc sample_auto_ref payload None] \<and> has_ref_id sample_auto_ref payload) \<and>
   (\<exists>payload. calls (snd (Fire_setDoc (Fire 0) mem_sdk (DocPath ''orders/O0001'') sample_data mem_world)) =
       calls mem_world @ [SetDoc sample_ref payload None] \<and> has_ref_id sample_ref payload) \<and>
   (\<exists>payload. calls (snd (Fire_mergeDoc (Fire 0) mem_sdk (DocPath ''orders/O0001'') sample_data mem_world)) =
       calls mem_world @ [SetDoc sample_ref payload (Some (SetOptions True))] \<and> has_ref_id sample_ref payload) \<and>
   (\<exists>payload. calls (snd (Fire_updateDoc (Fire 0) mem_sdk (DocPath ''orders/O0001'') sample_data mem_world)) =
       calls mem_world @ [UpdateDoc sample_ref payload] \<and> has_ref_id sample_ref payload) \<and>
   (\<exists>payload. queued (fst (snd (FireBatch_add mem_sdk (ColPath ''orders'') sample_data
                                   (new_FireBatch mem_sdk None mem_world) mem_world))) =
       [WSet sample_auto_ref payload None] \<and> has_ref_id sample_auto_ref payload) \<and>
   (\<exists>payload. queued (fst (snd (FireBatch_set mem_sdk (DocPath ''orders/O0001'') sample_data
                                   (new_FireBatch mem_sdk None mem_world) mem_world))) =
       [WSet sample_ref payload None] \<and> has_ref_id sample_ref payload) \<and>
   (\<exists>payload. queued (fst (snd (FireBatch_merge mem_sdk (DocPath ''orders/O0001'') sample_data
                                   (new_FireBatch mem_sdk None mem_world) mem_world))) =
       [WSet sample_ref payload (Some (SetOptions True))] \<and> has_ref_id sample_ref payload) \<and>
   (\<exists>payload. queued (fst (snd (FireBatch_update mem_sdk (DocPath ''orders/O0001'') sample_data
                                   (new_FireBatch mem_sdk None mem_world) mem_world))) =
       [WUpdate sample_ref payload] \<and> has_ref_id sample_ref payload)"
proof -
  let ?fb = "new_FireBatch mem_sdk None mem_world"
  let ?wk = "mem_world\<lparr>backend := (backend mem_world)\<lparr>mem_next_id := 1\<rparr>\<rparr>"
  let ?add = "FireBatch_add mem_sdk (ColPath ''orders'') sample_data ?fb mem_world"
  let ?set = "FireBatch_set mem_sdk (DocPath ''orders/O0001'') sample_data ?fb mem_world"
  let ?merge = "FireBatch_merge mem_sdk (DocPath ''orders/O0001'') sample_data ?fb mem_world"
  let ?update = "FireBatch_update mem_sdk (DocPath ''orders/O0001'') sample_data ?fb mem_world"
  note T = written_payload_has_reference_id[where sdk = mem_sdk and this = "Fire 0"
      and c = "ColPath ''orders''" and w = mem_world and col = "CollectionReference ''orders''"
      and r = sample_auto_ref and wn = ?wk and data = sample_data
      and p = "DocPath ''orders/O0001''" and r' = sample_ref and wq = mem_world and fb = ?fb
      and docId = "''k''" and fba = "fst (snd ?add)" and wa = "snd (snd ?add)" and u = "()"
      and fbs = "fst (snd ?set)" and ws = "snd (snd ?set)"
      and fbm = "fst (snd ?merge)" and wm = "snd (snd ?merge)"
      and fbu = "fst (snd ?update)" and wu = "snd (snd ?update)"]
  have col: "getColRef mem_sdk (ColPath ''orders'') mem_world = Inr (CollectionReference ''orders'') \<and>
      doc_auto mem_sdk (CollectionReference ''orders'') mem_world = (sample_auto_ref, ?wk)"
    by (simp add: mem_simps mem_doc_auto sample_auto_ref_def mem_world_def)
  have ref: "getDocRef mem_sdk (Inl (DocPath ''orders/O0001'')) mem_world = (Inr sample_ref, mem_world)"
    by (simp add: mem_simps last_segment_def sample_ref_def)
  have q0: "queued ?fb = []"
    by (simp add: queued_def new_FireBatch_def writeBatch_def)
  have "fst ?add = Inr ''k''"
    by (simp add: FireBatch_eval sample_data_def DEF_COUNT_PER_BATCH_def mem_world_def)
  then have add: "?add = (Inr ''k'', fst (snd ?add), snd (snd ?add))"
    by (metis prod.collapse)
  have "fst ?set = Inr ()"
    by (simp add: FireBatch_eval sample_data_def DEF_COUNT_PER_BATCH_def)
  then have set: "?set = (Inr (), fst (snd ?set), snd (snd ?set))"
    by (metis prod.collapse)
  have "fst ?merge = Inr ()"
    by (simp add: FireBatch_eval sample_data_def DEF_COUNT_PER_BATCH_def)
  then have merge: "?merge = (Inr (), fst (snd ?merge), snd (snd ?merge))"
    by (metis prod.collapse)
  have "fst ?update = Inr ()"
    by (simp add: FireBatch_eval sample_data_def DEF_COUNT_PER_BATCH_def)
  then have update: "?update = (Inr (), fst (snd ?update), snd (snd ?update))"
    by (metis prod.collapse)
  from T col ref add set merge update
  have fire: "(\<exists>payload. calls (snd (Fire_addDoc (Fire 0) mem_sdk (ColPath ''orders'') sample_data mem_world)) =
       calls mem_world @ [SetDoc sample_auto_ref payload None] \<and> has_ref_id sample_auto_ref payload)"
    "(\<exists>payload. calls (snd (Fire_setDoc (Fire 0) mem_sdk (DocPath ''orders/O0001'') sample_data mem_world)) =
       calls mem_world @ [SetDoc sample_ref payload None] \<and> has_ref_id sample_ref payload)"
    "(\<exists>payload. calls (snd (Fire_mergeDoc (Fire 0) mem_sdk (DocPath ''orders/O0001'') sample_data mem_world)) =
       calls mem_world @ [SetDoc sample_ref payload (Some (SetOptions True))] \<and> has_ref_id sample_ref payload)"
    "(\<exists>payload. calls (snd (Fire_updateDoc (Fire 0) mem_sdk (DocPath ''orders/O0001'') sample_data mem_world)) =
       calls mem_world @ [UpdateDoc sample_ref payload] \<and> has_ref_id sample_ref payload)"
    by blast+
  from T add col have "\<exists>col r payload. getColRef mem_sdk (ColPath ''orders'') mem_world = Inr col \<and>
      doc_auto mem_sdk col mem_world = (r, snd (snd ?add)) \<and> ''k'' = doc_id r \<and>
      queued (fst (snd ?add)) = queued ?fb @ [WSet r payload None] \<and> has_ref_id r payload"
    by blast
  with col have b1: "\<exists>payload. queued (fst (snd ?add)) = [WSet sample_auto_ref payload None] \<and> has_ref_id sample_auto_ref payload"
    by (auto simp: q0)
  from T set have "\<exists>r payload. getDocRef mem_sdk (Inl (DocPath ''orders/O0001'')) mem_world = (Inr r, snd (snd ?set)) \<and>
      queued (fst (snd ?set)) = queued ?fb @ [WSet r payload None] \<and> has_ref_id r payload"
    by blast
  with ref have b2: "\<exists>payload. queued (fst (snd ?set)) = [WSet sample_ref payload None] \<and> has_ref_id sample_ref payload"
    by (auto simp: q0)
  from T merge have "\<exists>r payload. getDocRef mem_sdk (Inl (DocPath ''orders/O0001'')) mem_world = (Inr r, snd (snd ?merge)) \<and>
      queued (fst (snd ?merge)) = queued ?fb @ [WSet r payload (Some (SetOptions True))] \<and> has_ref_id r payload"
    by blast
  with ref have b3: "\<exists>payload. queued (fst (snd ?merge)) = [WSet sample_ref payload (Some (SetOptions True))] \<and> has_ref_id sample_ref payload"
    by (auto simp: q0)
  from T update have "\<exists>r payload. getDocRef mem_sdk (Inl (DocPath ''orders/O0001'')) mem_world = (Inr r, snd (snd ?update)) \<and>
      queued (fst (snd ?update)) = queued ?fb @ [WUpdate r payload] \<and> has_ref_id r payload"
    by blast
  with ref have b4: "\<exists>payload. queued (fst (snd ?update)) = [WUpdate sample_ref payload] \<and> has_ref_id sample_ref payload"
    by (auto simp: q0)
  from fire b1 b2 b3 b4 show ?thesis by (intro conjI)
qed

text \<open>The theorem above at concrete inputs of the in-memory SDK.\<close>

theorem write_attaches_one_timestamp_witness:
  "(\<exists>payload. calls (snd (Fire_addDoc (Fire 0) mem_sdk (ColPath ''orders'') sample_data mem_world)) =
       calls mem_world @ [SetDoc sample_auto_ref payload None] \<and> stamps_created sample_data payload) \<and>
   (\<exists>payload. calls (snd (Fire_setDoc (Fire 0) mem_sdk (DocPath ''orders/O0001'') sample_data mem_world)) =
       calls mem_world @ [SetDoc sample_ref payload None] \<and> stamps_created sample_data payload) \<and>
   (\<exists>payload. calls (snd (Fire_mergeDoc (Fire 0) mem_sdk (DocPath ''orders/O0001'') sample_data mem_world)) =
       calls mem_world @ [SetDoc sample_ref payload (Some (SetOptions True))] \<and> stamps_updated sample_data payload) \<and>
   (\<exists>payload. calls (snd (Fire_updateDoc (Fire 0) mem_sdk (DocPath ''orders/O0001'') sample_data mem_world)) =
       calls mem_world @ [UpdateDoc sample_ref payload] \<and> stamps_updated sample_data payload) \<and>
   (\<exists>payload. queued (fst (snd (FireBatch_add mem_sdk (ColPath ''orders'') sample_data
                                   (new_FireBatch mem_sdk None mem_world) mem_world))) =
       [WSet sample_auto_ref payload None] \<and> stamps_created sample_data payload) \<and>
   (\<exists>payload. queued (fst (snd (FireBatch_set mem_sdk (DocPath ''orders/O0001'') sample_data
                                   (new_FireBatch mem_sdk None mem_world) mem_world))) =
       [WSet sample_ref payload None] \<and> stamps_created sample_data payload) \<and>
   (\<exists>payload. queued (fst (snd (FireBatch_merge mem_sdk (DocPath ''orders/O0001'') sample_data
                                   (new_FireBatch mem_sdk None mem_world) mem_world))) =
       [WSet sample_ref payload (Some (SetOptions True))] \<and> stamps_updated sample_data payload) \<and>
   (\<exists>payload. queued (fst (snd (FireBatch_update mem_sdk (DocPath ''orders/O0001'') sample_data
                                   (new_FireBatch mem_sdk None mem_world) mem_world))) =
       [WUpdate sample_ref payload] \<and> stamps_updated sample_data payload)"
proof -
  let ?fb = "new_FireBatch mem_sdk None mem_world"
  let ?wk = "mem_world\<lparr>backend := (backend mem_world)\<lparr>mem_next_id := 1\<rparr>\<rparr>"
  let ?add = "FireBatch_add mem_sdk (ColPath ''orders'') sample_data ?fb mem_world"
  let ?set = "FireBatch_set mem_sdk (DocPath ''orders/O0001'') sample_data ?fb mem_world"
  let ?merge = "FireBatch_merge mem_sdk (DocPath ''orders/O0001'') sample_data ?fb mem_world"
  let ?update = "FireBatch_update mem_sdk (DocPath ''orders/O0001'') sample_data ?fb mem_world"
  note T = write_attaches_one_timestamp[where sdk = mem_sdk and this = "Fire 0"
      and c = "ColPath ''orders''" and w = mem_world and col = "CollectionReference ''orders''"
      and r = sample_auto_ref and wn = ?wk and data = sample_data
      and p = "DocPath ''orders/O0001''" and r' = sample_ref and wq = mem_world and fb = ?fb
      and docId = "''k''" and fba = "fst (snd ?add)" and wa = "snd (snd ?add)" and u = "()"
      and fbs = "fst (snd ?set)" and ws = "snd (snd ?set)"
      and fbm = "fst (snd ?merge)" and wm = "snd (snd ?merge)"
      and fbu = "fst (snd ?update)" and wu = "snd (snd ?update)"]
  have col: "getColRef mem_sdk (ColPath ''orders'') mem_world = Inr (CollectionReference ''orders'') \<and>
      doc_auto mem_sdk (CollectionReference ''orders'') mem_world = (sample_auto_ref, ?wk)"
    by (simp add: mem_simps mem_doc_auto sample_auto_ref_def mem_world_def)
  have ref: "getDocRef mem_sdk (Inl (DocPath ''orders/O0001'')) mem_world = (Inr sample_ref, mem_world)"
    by (simp add: mem_simps last_segment_def sample_ref_def)
  have q0: "queued ?fb = []"
    by (simp add: queued_def new_FireBatch_def writeBatch_def)
  have "fst ?add = Inr ''k''"
    by (simp add: FireBatch_eval sample_data_def DEF_COUNT_PER_BATCH_def mem_world_def)
  then have add: "?add = (Inr ''k'', fst (snd ?add), snd (snd ?add))"
    by (metis prod.collapse)
  have "fst ?set = Inr ()"
    by (simp add: FireBatch_eval sample_data_def DEF_COUNT_PER_BATCH_def)
  then have set: "?set = (Inr (), fst (snd ?set), snd (snd ?set))"
    by (metis prod.collapse)
  have "fst ?merge = Inr ()"
    by (simp add: FireBatch_eval sample_data_def DEF_COUNT_PER_BATCH_def)
  then have merge: "?merge = (Inr (), fst (snd ?merge), snd (snd ?merge))"
    by (metis prod.collapse)
  have "fst ?update = Inr ()"
    by (simp add: FireBatch_eval sample_data_def DEF_COUNT_PER_BATCH_def)
  then have update: "?update = (Inr (), fst (snd ?update), snd (snd ?update))"
    by (metis prod.collapse)
  from T col ref add set merge update
  have fire: "(\<exists>payload. calls (snd (Fire_addDoc (Fire 0) mem_sdk (ColPath ''orders'') sample_data mem_world)) =
       calls mem_world @ [SetDoc sample_auto_ref payload None] \<and> stamps_created sample_data payload)"
    "(\<exists>payload. calls (snd (Fire_setDoc (Fire 0) mem_sdk (DocPath ''orders/O0001'') sample_data mem_world)) =
       calls mem_world @ [SetDoc sample_ref payload None] \<and> stamps_created sample_data payload)"
    "(\<exists>payload. calls (snd (Fire_mergeDoc (Fire 0) mem_sdk (DocPath ''orders/O0001'') sample_data mem_world)) =
       calls mem_world @ [SetDoc sample_ref payload (Some (SetOptions True))] \<and> stamps_updated sample_data payload)"
    "(\<exists>payload. calls (snd (Fire_updateDoc (Fire 0) mem_sdk (DocPath ''orders/O0001'') sample_data mem_world)) =
       calls mem_world @ [UpdateDoc sample_ref payload] \<and> stamps_updated sample_data payload)"
    by blast+
  from T add col have "\<exists>col r payload. getColRef mem_sdk (ColPath ''orders'') mem_world = Inr col \<and>
      doc_auto mem_sdk col mem_world = (r, snd (snd ?add)) \<and> ''k'' = doc_id r \<and>
      queued (fst (snd ?add)) = queued ?fb @ [WSet r payload None] \<and> stamps_created sample_data payload"
    by blast
  with col have b1: "\<exists>payload. queued (fst (snd ?add)) = [WSet sample_auto_ref payload None] \<and> stamps_created sample_data payload"
    by (auto simp: q0)
  from T set have "\<exists>r payload. getDocRef mem_sdk (Inl (DocPath ''orders/O0001'')) mem_world = (Inr r, snd (snd ?set)) \<and>
      queued (fst (snd ?set)) = queued ?fb @ [WSet r payload None] \<and> stamps_created sample_data payload"
    by blast
  with ref have b2: "\<exists>payload. queued (fst (snd ?set)) = [WSet sample_ref payload None] \<and> stamps_created sample_data payload"
    by (auto simp: q0)
  from T merge have "\<exists>r payload. getDocRef mem_sdk (Inl (DocPath ''orders/O0001'')) mem_world = (Inr r, snd (snd ?merge)) \<and>
      queued (fst (snd ?merge)) = queued ?fb @ [WSet r payload (Some (SetOptions True))] \<and> stamps_updated sample_data payload"
    by blast
  with ref have b3: "\<exists>payload. queued (fst (snd ?merge)) = [WSet sample_ref payload (Some (SetOptions True))] \<and> stamps_updated sample_data payload"
    by (auto simp: q0)
  from T update have "\<exists>r payload. getDocRef mem_sdk (Inl (DocPath ''orders/O0001'')) mem_world = (Inr r, snd (snd ?update)) \<and>
      queued (fst (snd ?update)) = queued ?fb @ [WUpdate r payload] \<and> stamps_updated sample_data payload"
    by blast
  with ref have b4: "\<exists>payload. queued (fst (snd ?update)) = [WUpdate sample_ref payload] \<and> stamps_updated sample_data payload"
    by (auto simp: q0)
  from fire b1 b2 b3 b4 show ?thesis by (intro conjI)
qed

text \<open>The theorem above at concrete inputs of the in-memory SDK.\<close>

theorem Fire_crud_single_backend_call_witness:
  "calls (snd (Fire_getDoc (Fire 0) mem_sdk (DocPath ''orders/O0001'')
                 (createDataConverter mem_sdk id id) mem_world)) = [GetDoc sample_ref] \<and>
   fst (Fire_getDoc (Fire 0) mem_sdk (DocPath ''orders/O0001'')
          (createDataConverter mem_sdk id id) mem_world) = Inr None \<and>
   calls (snd (Fire_setDoc (Fire 0) mem_sdk (DocPath ''orders/O0001'') sample_data mem_world)) =
     [SetDoc sample_ref (enriched ''createdAt'' sample_ref sample_data) None] \<and>
   mem_journal (backend (snd (Fire_setDoc (Fire 0) mem_sdk (DocPath ''orders/O0001'') sample_data mem_world))) =
     [WSet sample_ref (enriched ''createdAt'' sample_ref sample_data) None] \<and>
   fst (Fire_setDoc (Fire 0) mem_sdk (DocPath ''orders/O0001'') sample_data mem_world) = Inr sample_ref \<and>
   calls (snd (Fire_mergeDoc (Fire 0) mem_sdk (DocPath ''orders/O0001'') sample_data mem_world)) =
     [SetDoc sample_ref (enriched ''updatedAt'' sample_ref sample_data) (Some (SetOptions True))] \<and>
   calls (snd (Fire_updateDoc (Fire 0) mem_sdk (DocPath ''orders/O0001'') sample_data mem_world)) =
     [UpdateDoc sample_ref (enriched ''updatedAt'' sample_ref sample_data)] \<and>
   calls (snd (Fire_deleteDoc (Fire 0) mem_sdk (DocPath ''orders/O0001'') mem_world)) =
     [DeleteDoc sample_ref] \<and>
   calls (snd (Fire_addDoc (Fire 0) mem_sdk (ColPath ''orders'') sample_data mem_world)) =
     [SetDoc sample_auto_ref (enriched ''createdAt'' sample_auto_ref sample_data) None] \<and>
   fst (Fire_addDoc (Fire 0) mem_sdk (ColPath ''orders'') sample_data mem_world) = Inr sample_auto_ref \<and>
   Fire_deleteDoc (Fire 0) mem_sdk (DocPath []) mem_world =
     (Inl (FirebaseError ''invalid-argument''), mem_world) \<and>
   Fire_addDoc (Fire 0) mem_sdk (ColPath []) sample_data mem_world =
     (Inl (FirebaseError ''invalid-argument''), mem_world)"
proof -
  let ?wk = "mem_world\<lparr>backend := (backend mem_world)\<lparr>mem_next_id := 1\<rparr>\<rparr>"
  note T = Fire_crud_single_backend_call[where sdk = mem_sdk and this = "Fire 0"
      and p = "DocPath ''orders/O0001''" and w = mem_world and r = sample_ref and wn = mem_world
      and conv = "createDataConverter mem_sdk id id" and data = sample_data
      and c = "ColPath ''orders''" and col = "CollectionReference ''orders''"
      and r' = sample_auto_ref and wc = ?wk
      and q = "DocPath []" and e = "FirebaseError ''invalid-argument''" and wx = mem_world
      and d = "ColPath []" and e' = "FirebaseError ''invalid-argument''"]
  have col: "getColRef mem_sdk (ColPath ''orders'') mem_world = Inr (CollectionReference ''orders'') \<and>
      doc_auto mem_sdk (CollectionReference ''orders'') mem_world = (sample_auto_ref, ?wk)"
    by (simp add: mem_simps mem_doc_auto sample_auto_ref_def mem_world_def)
  have ref: "getDocRef mem_sdk (Inl (DocPath ''orders/O0001'')) mem_world = (Inr sample_ref, mem_world)"
    by (simp add: mem_simps last_segment_def sample_ref_def)
  have empty: "calls mem_world = []" "mem_journal (backend mem_world) = []"
    by (simp_all add: mem_world_def)
  have fns: "getDoc_fn mem_sdk r b = (Inr (map_option (\<lambda>d. QueryDocumentSnapshot (\<lambda>opts. d))
                                     (mem_find r (mem_journal b))), b)"
    "setDoc_fn mem_sdk r d opts b = (Inr (), b\<lparr>mem_journal := mem_journal b @ [WSet r d opts]\<rparr>)"
    for r d opts b
    by (simp_all add: mem_sdk_def)
  have bad: "getDocRef mem_sdk (Inl (DocPath [])) mem_world =
      (Inl (FirebaseError ''invalid-argument''), mem_world)"
    "getColRef mem_sdk (ColPath []) mem_world = Inl (FirebaseError ''invalid-argument'')"
    by (simp_all add: mem_simps)
  from T ref col bad show ?thesis
    by (simp add: empty fns)
qed

text \<open>
  Claim C6 as stated fails when the SDK refuses the path: \<open>setDoc\<close> on the empty path
  throws while normalizing the reference and makes no call at all.
\<close>

theorem Fire_refused_path_no_call_counterexample:
  "calls (snd (Fire_setDoc (Fire 0) mem_sdk (DocPath []) sample_data mem_world)) = [] \<and>
   fst (Fire_setDoc (Fire 0) mem_sdk (DocPath []) sample_data mem_world) =
     Inl (FirebaseError ''invalid-argument'')"
  by (simp add: Fire_setDoc_def mem_simps mem_world_def)


end
